theory Spec2Isabelle
  imports Complex_Main "HOL-Library.Word"
begin

unbundle bit_operations_syntax

section \<open>CTViewer: the volume renderer and its C entry points\<close>

text \<open>
  The development embeds \<^verbatim>\<open>VolumeRenderer.cpp\<close> and \<^verbatim>\<open>CTViewer.cpp\<close>.

  \<^item> A C++ \<^verbatim>\<open>float\<close> is a \<open>cfloat\<close>: a number, an infinity or NaN. Arithmetic on
    numbers is exact; rounding and overflow are outside the model.
  \<^item> A C++ \<^verbatim>\<open>int\<close> that is only compared or stored is an \<^typ>\<open>int\<close>; the packed colours,
    whose bits are taken apart, are \<^typ>\<open>32 word\<close>.
  \<^item> A \<^verbatim>\<open>ComPtr\<close> is \<^typ>\<open>bool\<close> (non-null) when nothing is read from the object behind it,
    and an \<^typ>\<open>'a option\<close> carrying the object's description otherwise.
  \<^item> A pointer argument is an \<^typ>\<open>'a option\<close>: \<^term>\<open>None\<close> is the null pointer, and
    \<^term>\<open>Some xs\<close> points to the array \<^term>\<open>xs\<close>.
  \<^item> The outcome of every Direct3D call is an input of the model (the record \<open>d3d\<close>).
  \<^item> Every call of \<^verbatim>\<open>Log\<close> is kept, with the message as the source writes it; a
    \<^verbatim>\<open>sprintf_s\<close> format string stands for the formatted message.
\<close>

subsection \<open>Logging (CTViewer.cpp, Logger.h)\<close>

abbreviation (input) LOG_INFO :: nat where "LOG_INFO \<equiv> 0"
abbreviation (input) LOG_WARNING :: nat where "LOG_WARNING \<equiv> 1"
abbreviation (input) LOG_ERROR :: nat where "LOG_ERROR \<equiv> 2"

text \<open>\<open>g_logCallback\<close> is the registered sink (non-null or null); \<open>delivered\<close> lists
  the calls the sink has received, oldest first.\<close>

record logger =
  g_logCallback :: bool
  delivered :: "(string \<times> nat) list"

definition Log :: "string \<Rightarrow> nat \<Rightarrow> logger \<Rightarrow> logger" where
  "Log message severity lg =
     (if g_logCallback lg then lg\<lparr>delivered := delivered lg @ [(message, severity)]\<rparr> else lg)"

subsection \<open>Floating-point values\<close>

text \<open>A \<^verbatim>\<open>float\<close> holds a number, one of the two infinities, or NaN. On numbers the
  operations are those of the reals. Infinities and NaN follow IEEE 754: an operation
  with a NaN operand gives NaN, so do \<open>\<infinity> - \<infinity>\<close>, \<open>0 \<times> \<infinity>\<close> and the sine and cosine of an
  infinity, and every comparison with NaN is false.\<close>

datatype cfloat = Num real | PInf | NInf | NaN

instantiation cfloat :: "{uminus, plus, minus, times, ord}"
begin

fun uminus_cfloat :: "cfloat \<Rightarrow> cfloat" where
  "- Num x = Num (- x)"
| "- PInf = NInf"
| "- NInf = PInf"
| "- NaN = NaN"

fun plus_cfloat :: "cfloat \<Rightarrow> cfloat \<Rightarrow> cfloat" where
  "Num x + Num y = Num (x + y)"
| "NaN + b = NaN"
| "a + NaN = NaN"
| "PInf + NInf = NaN"
| "NInf + PInf = NaN"
| "PInf + b = PInf"
| "a + PInf = PInf"
| "NInf + b = NInf"
| "a + NInf = NInf"

definition minus_cfloat :: "cfloat \<Rightarrow> cfloat \<Rightarrow> cfloat" where
  "(a :: cfloat) - b = a + (- b)"

fun times_cfloat :: "cfloat \<Rightarrow> cfloat \<Rightarrow> cfloat" where
  "Num x * Num y = Num (x * y)"
| "NaN * b = NaN"
| "a * NaN = NaN"
| "Num x * PInf = (if x = 0 then NaN else if 0 < x then PInf else NInf)"
| "Num x * NInf = (if x = 0 then NaN else if 0 < x then NInf else PInf)"
| "PInf * Num y = (if y = 0 then NaN else if 0 < y then PInf else NInf)"
| "NInf * Num y = (if y = 0 then NaN else if 0 < y then NInf else PInf)"
| "PInf * PInf = PInf"
| "PInf * NInf = NInf"
| "NInf * PInf = NInf"
| "NInf * NInf = PInf"

fun less_cfloat :: "cfloat \<Rightarrow> cfloat \<Rightarrow> bool" where
  "(Num x < Num y) = (x < y)"
| "(NaN < b) = False"
| "(a < NaN) = False"
| "(NInf < NInf) = False"
| "(NInf < b) = True"
| "(a < NInf) = False"
| "(PInf < b) = False"
| "(a < PInf) = True"

definition less_eq_cfloat :: "cfloat \<Rightarrow> cfloat \<Rightarrow> bool" where
  "((a :: cfloat) \<le> b) = (a < b \<or> (a = b \<and> a \<noteq> NaN))"

instance ..

end

text \<open>\<^verbatim>\<open>sin\<close> and \<^verbatim>\<open>cos\<close> on a \<^verbatim>\<open>float\<close>.\<close>

fun sinf :: "cfloat \<Rightarrow> cfloat" where
  "sinf (Num x) = Num (sin x)"
| "sinf a = NaN"

fun cosf :: "cfloat \<Rightarrow> cfloat" where
  "cosf (Num x) = Num (cos x)"
| "cosf a = NaN"

subsection \<open>Library parts the sources use\<close>

text \<open>Modelled from the spec: the macros \<^verbatim>\<open>min\<close> and \<^verbatim>\<open>max\<close> come from
  \<^verbatim>\<open>windows.h\<close> (included by \<^verbatim>\<open>pch.h\<close>), which is not among the sources; the spec calls
  their nested use a clamp. They are written here as the conditional expressions the
  macros expand to.\<close>

definition min_macro :: "'a::ord \<Rightarrow> 'a \<Rightarrow> 'a" where
  "min_macro a b = (if a < b then a else b)"

definition max_macro :: "'a::ord \<Rightarrow> 'a \<Rightarrow> 'a" where
  "max_macro a b = (if a > b then a else b)"

text \<open>Modelled from the spec: \<^verbatim>\<open>XM_PIDIV2\<close> is declared by DirectXMath, which is not
  among the sources; the spec gives the bound it stands for as \<open>\<pi>/2\<close>.\<close>

definition XM_PIDIV2 :: cfloat where
  "XM_PIDIV2 = Num (pi / 2)"

datatype XMFLOAT3 = XMFLOAT3 (f3x: cfloat) (f3y: cfloat) (f3z: cfloat)

datatype XMFLOAT4 = XMFLOAT4 (f4x: cfloat) (f4y: cfloat) (f4z: cfloat) (f4w: cfloat)

text \<open>What a 3D texture was created from: \<^verbatim>\<open>D3D11_TEXTURE3D_DESC\<close> and
  \<^verbatim>\<open>D3D11_SUBRESOURCE_DATA\<close>. The slice pitch is the product of two dimensions, taken
  here without overflow.\<close>

record texture3d =
  Width :: int
  Height :: int
  Depth :: int
  pSysMem :: "8 word list"
  SysMemPitch :: int
  SysMemSlicePitch :: int

subsection \<open>The renderer object (VolumeRenderer.h)\<close>

text \<open>\<open>issued\<close> is not a member of the class: it lists the calls made on the device
  context \<open>m_context\<close>, oldest first.\<close>

record VolumeRenderer =
  m_device :: bool
  m_context :: bool
  m_swapChain :: bool
  m_renderTargetView :: bool
  m_depthStencilView :: bool
  m_vertexShader :: bool
  m_pixelShader :: bool
  m_inputLayout :: bool
  m_vertexBuffer :: bool
  m_indexBuffer :: bool
  m_constantBuffer :: bool
  m_materialBuffer :: "XMFLOAT4 list option"
  m_materialSRV :: bool
  m_volumeTexture :: "texture3d option"
  m_volumeSRV :: "texture3d option"
  m_labelTexture :: "texture3d option"
  m_labelSRV :: "texture3d option"
  m_volumeSampler :: bool
  m_volumeWidth :: int
  m_volumeHeight :: int
  m_volumeDepth :: int
  m_voxelSize :: cfloat
  m_width :: int
  m_height :: int
  m_cameraPosition :: XMFLOAT3
  m_focusPoint :: XMFLOAT3
  m_upVector :: XMFLOAT3
  m_cameraTheta :: cfloat
  m_cameraPhi :: cfloat
  m_cameraRadius :: cfloat
  m_opacity :: cfloat
  m_brightness :: cfloat
  m_contrast :: cfloat
  m_renderMode :: int
  m_showLabels :: bool
  m_materials :: "XMFLOAT4 list"
  issued :: "string list"

text \<open>The constructor. It leaves \<open>m_width\<close> and \<open>m_height\<close> unassigned; the values they
  happen to hold are the arguments \<open>w0\<close> and \<open>h0\<close>.\<close>

definition VolumeRenderer_ctor :: "int \<Rightarrow> int \<Rightarrow> logger \<Rightarrow> logger \<times> VolumeRenderer" where
  "VolumeRenderer_ctor w0 h0 lg =
     (Log ''VolumeRenderer constructor called'' LOG_INFO lg,
      \<lparr> m_device = False, m_context = False, m_swapChain = False,
        m_renderTargetView = False, m_depthStencilView = False,
        m_vertexShader = False, m_pixelShader = False, m_inputLayout = False,
        m_vertexBuffer = False, m_indexBuffer = False, m_constantBuffer = False,
        m_materialBuffer = None, m_materialSRV = False,
        m_volumeTexture = None, m_volumeSRV = None,
        m_labelTexture = None, m_labelSRV = None, m_volumeSampler = False,
        m_volumeWidth = 0, m_volumeHeight = 0, m_volumeDepth = 0, m_voxelSize = Num 1,
        m_width = w0, m_height = h0,
        m_cameraPosition = XMFLOAT3 (Num 0) (Num 0) (Num (- 2)),
        m_focusPoint = XMFLOAT3 (Num 0) (Num 0) (Num 0),
        m_upVector = XMFLOAT3 (Num 0) (Num 1) (Num 0),
        m_cameraTheta = Num 0, m_cameraPhi = Num 0, m_cameraRadius = Num 2,
        m_opacity = Num (5 / 100), m_brightness = Num 0, m_contrast = Num 1,
        m_renderMode = 0, m_showLabels = True,
        m_materials = [], issued = [] \<rparr>)"

subsection \<open>The camera (VolumeRenderer.cpp)\<close>

definition VolumeRenderer_RotateCamera ::
  "cfloat \<Rightarrow> cfloat \<Rightarrow> logger \<times> VolumeRenderer \<Rightarrow> logger \<times> VolumeRenderer" where
  "VolumeRenderer_RotateCamera deltaX deltaY = (\<lambda>(lg, r).
     let r = r\<lparr>m_cameraTheta := m_cameraTheta r + deltaX\<rparr>;
         r = r\<lparr>m_cameraPhi := m_cameraPhi r + deltaY\<rparr>;
         r = r\<lparr>m_cameraPhi :=
               max_macro (- XM_PIDIV2 + Num (1 / 10))
                 (min_macro (XM_PIDIV2 - Num (1 / 10)) (m_cameraPhi r))\<rparr>;
         sinTheta = sinf (m_cameraTheta r);
         cosTheta = cosf (m_cameraTheta r);
         sinPhi = sinf (m_cameraPhi r);
         cosPhi = cosf (m_cameraPhi r);
         r = r\<lparr>m_cameraPosition := XMFLOAT3
               (f3x (m_focusPoint r) + m_cameraRadius r * cosPhi * sinTheta)
               (f3y (m_focusPoint r) + m_cameraRadius r * sinPhi)
               (f3z (m_focusPoint r) + m_cameraRadius r * cosPhi * cosTheta)\<rparr>
     in (Log ''Camera rotated to theta: %f, phi: %f, radius: %f'' LOG_INFO lg, r))"

definition VolumeRenderer_ZoomCamera ::
  "cfloat \<Rightarrow> logger \<times> VolumeRenderer \<Rightarrow> logger \<times> VolumeRenderer" where
  "VolumeRenderer_ZoomCamera delta = (\<lambda>(lg, r).
     let r = r\<lparr>m_cameraRadius := m_cameraRadius r - delta\<rparr>;
         r = r\<lparr>m_cameraRadius := max_macro (Num (1 / 2)) (min_macro (Num 10) (m_cameraRadius r))\<rparr>;
         (lg, r) = VolumeRenderer_RotateCamera (Num 0) (Num 0) (lg, r)
     in (Log ''Camera zoomed to radius: %f'' LOG_INFO lg, r))"

definition VolumeRenderer_ResetCamera :: "logger \<times> VolumeRenderer \<Rightarrow> logger \<times> VolumeRenderer" where
  "VolumeRenderer_ResetCamera = (\<lambda>(lg, r).
     let lg = Log ''Resetting camera to default position'' LOG_INFO lg;
         r = r\<lparr>m_cameraPosition := XMFLOAT3 (Num 0) (Num 0) (Num (- 2))\<rparr>;
         r = r\<lparr>m_focusPoint := XMFLOAT3 (Num 0) (Num 0) (Num 0)\<rparr>;
         r = r\<lparr>m_upVector := XMFLOAT3 (Num 0) (Num 1) (Num 0)\<rparr>;
         r = r\<lparr>m_cameraTheta := Num 0\<rparr>;
         r = r\<lparr>m_cameraPhi := Num 0\<rparr>;
         r = r\<lparr>m_cameraRadius := Num 2\<rparr>
     in (lg, r))"

subsection \<open>The Direct3D calls as inputs\<close>

text \<open>\<open>std_exception what\<close> is an exception derived from \<^verbatim>\<open>std::exception\<close>;
  \<open>unknown_exception\<close> is any other thrown object.\<close>

datatype exn = std_exception string | unknown_exception

text \<open>One field for every place where the sources test an \<^verbatim>\<open>HRESULT\<close>: \<^term>\<open>True\<close> is
  \<^verbatim>\<open>SUCCEEDED(hr)\<close>. \<open>debug_build\<close> says whether \<^verbatim>\<open>_DEBUG\<close> is defined, the
  \<open>errorBlob\<close> fields hold the compiler's diagnostic text when there is one, \<open>uninit_width\<close>
  and \<open>uninit_height\<close> are what the unassigned members hold after construction, and
  \<open>raises\<close> names the calls of the render sequence that throw.\<close>

record d3d =
  debug_build :: bool
  uninit_width :: int
  uninit_height :: int
  hr_D3D11CreateDeviceAndSwapChain :: bool
  hr_D3D11CreateDeviceAndSwapChain_retry :: bool
  hr_GetBuffer :: bool
  hr_CreateRenderTargetView :: bool
  hr_CreateTexture2D :: bool
  hr_CreateDepthStencilView :: bool
  hr_D3DCompileFromFile_vs :: bool
  errorBlob_vs :: "string option"
  hr_CreateVertexShader :: bool
  hr_CreateInputLayout :: bool
  hr_D3DCompileFromFile_ps :: bool
  errorBlob_ps :: "string option"
  hr_CreatePixelShader :: bool
  hr_CreateBuffer_constant :: bool
  hr_CreateBuffer_material :: bool
  hr_CreateShaderResourceView_material :: bool
  hr_CreateSamplerState :: bool
  hr_CreateBuffer_vertex :: bool
  hr_CreateBuffer_index :: bool
  hr_CreateTexture3D :: bool
  hr_CreateShaderResourceView :: bool
  hr_Map :: bool
  hr_ResizeBuffers :: bool
  hr_CreateBuffer_renderParams :: bool
  hr_Present :: bool
  raises :: "string \<Rightarrow> exn option"

text \<open>\<^verbatim>\<open>std::vector::resize(n, v)\<close>.\<close>

definition vector_resize :: "nat \<Rightarrow> 'a \<Rightarrow> 'a list \<Rightarrow> 'a list" where
  "vector_resize n v xs = take n xs @ replicate (n - length xs) v"

subsection \<open>Private helpers of the renderer (VolumeRenderer.cpp)\<close>

text \<open>Taking the address of a \<^verbatim>\<open>ComPtr\<close> releases what it holds, so after a creation
  call the pointer is the new object on success and null on failure.\<close>

definition VolumeRenderer_CreateDeviceAndSwapChain ::
  "d3d \<Rightarrow> logger \<times> VolumeRenderer \<Rightarrow> bool \<times> logger \<times> VolumeRenderer" where
  "VolumeRenderer_CreateDeviceAndSwapChain env = (\<lambda>(lg, r).
     let lg = Log ''CreateDeviceAndSwapChain called'' LOG_INFO lg;
         lg = (if debug_build env then Log ''Enabling DirectX debug layer'' LOG_INFO lg else lg);
         lg = Log ''Requested swap chain dimensions: %dx%d'' LOG_INFO lg;
         hr = hr_D3D11CreateDeviceAndSwapChain env;
         r = r\<lparr>m_swapChain := hr, m_device := hr, m_context := hr\<rparr>;
         (failed, lg, r) =
           (if \<not> hr then
              let lg = Log ''D3D11CreateDeviceAndSwapChain failed, HRESULT: 0x%08X'' LOG_ERROR lg
              in if debug_build env then
                   let lg = Log ''Retrying without debug layer'' LOG_INFO lg;
                       hr = hr_D3D11CreateDeviceAndSwapChain_retry env;
                       r = r\<lparr>m_swapChain := hr, m_device := hr, m_context := hr\<rparr>
                   in if \<not> hr then (True, Log ''Second attempt failed, HRESULT: 0x%08X'' LOG_ERROR lg, r)
                      else (False, Log ''Device created successfully without debug layer'' LOG_INFO lg, r)
                 else (True, lg, r)
            else (False, lg, r))
     in if failed then (False, lg, r)
        else (True, Log ''Device created with feature level %s'' LOG_INFO lg, r))"

definition VolumeRenderer_CreateRenderTargetView ::
  "d3d \<Rightarrow> logger \<times> VolumeRenderer \<Rightarrow> bool \<times> logger \<times> VolumeRenderer" where
  "VolumeRenderer_CreateRenderTargetView env = (\<lambda>(lg, r).
     let lg = Log ''CreateRenderTargetView called'' LOG_INFO lg
     in if \<not> hr_GetBuffer env then
          (False, Log ''Failed to get back buffer, HRESULT: 0x%08X'' LOG_ERROR lg, r)
        else
     let lg = Log ''Back buffer dimensions: %dx%d'' LOG_INFO lg;
         r = r\<lparr>m_renderTargetView := hr_CreateRenderTargetView env\<rparr>
     in if \<not> hr_CreateRenderTargetView env then
          (False, Log ''CreateRenderTargetView failed, HRESULT: 0x%08X'' LOG_ERROR lg, r)
        else (True, Log ''Render target view created successfully'' LOG_INFO lg, r))"

definition VolumeRenderer_CreateDepthStencilView ::
  "d3d \<Rightarrow> int \<Rightarrow> int \<Rightarrow> logger \<times> VolumeRenderer \<Rightarrow> bool \<times> logger \<times> VolumeRenderer" where
  "VolumeRenderer_CreateDepthStencilView env width height = (\<lambda>(lg, r).
     let lg = Log ''CreateDepthStencilView called: %dx%d'' LOG_INFO lg
     in if \<not> hr_CreateTexture2D env then
          (False, Log ''CreateTexture2D for depth stencil failed, HRESULT: 0x%08X'' LOG_ERROR lg, r)
        else
     let r = r\<lparr>m_depthStencilView := hr_CreateDepthStencilView env\<rparr>
     in if \<not> hr_CreateDepthStencilView env then
          (False, Log ''CreateDepthStencilView failed, HRESULT: 0x%08X'' LOG_ERROR lg, r)
        else (True, Log ''Depth stencil view created successfully'' LOG_INFO lg, r))"

definition VolumeRenderer_SetupViewport ::
  "int \<Rightarrow> int \<Rightarrow> logger \<times> VolumeRenderer \<Rightarrow> logger \<times> VolumeRenderer" where
  "VolumeRenderer_SetupViewport width height = (\<lambda>(lg, r).
     (Log ''SetupViewport: %dx%d'' LOG_INFO lg, r\<lparr>issued := issued r @ [''RSSetViewports'']\<rparr>))"

definition shader_compile_failed :: "string \<Rightarrow> string option \<Rightarrow> logger \<Rightarrow> logger" where
  "shader_compile_failed message errorBlob lg =
     (let lg = Log message LOG_ERROR lg
      in case errorBlob of
           None \<Rightarrow> lg
         | Some text \<Rightarrow> Log text LOG_ERROR (Log ''Shader compilation error:'' LOG_ERROR lg))"

definition VolumeRenderer_CreateShaders ::
  "d3d \<Rightarrow> logger \<times> VolumeRenderer \<Rightarrow> bool \<times> logger \<times> VolumeRenderer" where
  "VolumeRenderer_CreateShaders env = (\<lambda>(lg, r).
     let lg = Log ''CreateShaders called'' LOG_INFO lg;
         lg = Log ''Compiling vertex shader...'' LOG_INFO lg
     in if \<not> hr_D3DCompileFromFile_vs env then
          (False, shader_compile_failed ''Vertex shader compilation failed, HRESULT: 0x%08X''
                    (errorBlob_vs env) lg, r)
        else
     let r = r\<lparr>m_vertexShader := hr_CreateVertexShader env\<rparr>
     in if \<not> hr_CreateVertexShader env then
          (False, Log ''CreateVertexShader failed, HRESULT: 0x%08X'' LOG_ERROR lg, r)
        else
     let lg = Log ''Creating input layout...'' LOG_INFO lg;
         r = r\<lparr>m_inputLayout := hr_CreateInputLayout env\<rparr>
     in if \<not> hr_CreateInputLayout env then
          (False, Log ''CreateInputLayout failed, HRESULT: 0x%08X'' LOG_ERROR lg, r)
        else
     let lg = Log ''Compiling pixel shader...'' LOG_INFO lg
     in if \<not> hr_D3DCompileFromFile_ps env then
          (False, shader_compile_failed ''Pixel shader compilation failed, HRESULT: 0x%08X''
                    (errorBlob_ps env) lg, r)
        else
     let r = r\<lparr>m_pixelShader := hr_CreatePixelShader env\<rparr>
     in if \<not> hr_CreatePixelShader env then
          (False, Log ''CreatePixelShader failed, HRESULT: 0x%08X'' LOG_ERROR lg, r)
        else (True, Log ''Shaders created successfully'' LOG_INFO lg, r))"

definition VolumeRenderer_CreateConstantBuffers ::
  "d3d \<Rightarrow> logger \<times> VolumeRenderer \<Rightarrow> bool \<times> logger \<times> VolumeRenderer" where
  "VolumeRenderer_CreateConstantBuffers env = (\<lambda>(lg, r).
     let lg = Log ''CreateConstantBuffers called'' LOG_INFO lg;
         r = r\<lparr>m_constantBuffer := hr_CreateBuffer_constant env\<rparr>
     in if \<not> hr_CreateBuffer_constant env then
          (False, Log ''CreateBuffer for constant buffer failed, HRESULT: 0x%08X'' LOG_ERROR lg, r)
        else
     let r = r\<lparr>m_materials := vector_resize 256 (XMFLOAT4 (Num 0) (Num 0) (Num 0) (Num 0)) (m_materials r)\<rparr>;
         r = r\<lparr>m_materialBuffer :=
               (if hr_CreateBuffer_material env then Some (m_materials r) else None)\<rparr>
     in if \<not> hr_CreateBuffer_material env then
          (False, Log ''CreateBuffer for material buffer failed, HRESULT: 0x%08X'' LOG_ERROR lg, r)
        else
     let r = r\<lparr>m_materialSRV := hr_CreateShaderResourceView_material env\<rparr>
     in if \<not> hr_CreateShaderResourceView_material env then
          (False, Log ''CreateShaderResourceView for material buffer failed, HRESULT: 0x%08X''
                    LOG_ERROR lg, r)
        else (True, Log ''Constant buffers created successfully'' LOG_INFO lg, r))"

definition VolumeRenderer_CreateSamplers ::
  "d3d \<Rightarrow> logger \<times> VolumeRenderer \<Rightarrow> bool \<times> logger \<times> VolumeRenderer" where
  "VolumeRenderer_CreateSamplers env = (\<lambda>(lg, r).
     let lg = Log ''CreateSamplers called'' LOG_INFO lg;
         r = r\<lparr>m_volumeSampler := hr_CreateSamplerState env\<rparr>
     in if \<not> hr_CreateSamplerState env then
          (False, Log ''CreateSamplerState failed, HRESULT: 0x%08X'' LOG_ERROR lg, r)
        else (True, Log ''Samplers created successfully'' LOG_INFO lg, r))"

subsection \<open>Initialize and Shutdown (VolumeRenderer.cpp)\<close>

definition VolumeRenderer_Initialize ::
  "d3d \<Rightarrow> bool \<Rightarrow> int \<Rightarrow> int \<Rightarrow> logger \<times> VolumeRenderer \<Rightarrow> bool \<times> logger \<times> VolumeRenderer" where
  "VolumeRenderer_Initialize env hwnd width height = (\<lambda>(lg, r).
     let lg = Log ''VolumeRenderer::Initialize started'' LOG_INFO lg;
         lg = Log ''Window handle: 0x%p, Dimensions: %dx%d'' LOG_INFO lg
     in if \<not> hwnd then (False, Log ''Invalid window handle'' LOG_ERROR lg, r)
        else if width \<le> 0 \<or> height \<le> 0 then
          (False, Log ''Invalid dimensions: %dx%d'' LOG_ERROR lg, r)
        else
     let r = r\<lparr>m_width := width\<rparr>;
         r = r\<lparr>m_height := height\<rparr>;
         lg = Log ''Creating device and swap chain...'' LOG_INFO lg;
         (ok, lg, r) = VolumeRenderer_CreateDeviceAndSwapChain env (lg, r)
     in if \<not> ok then (False, Log ''Failed to create device and swap chain'' LOG_ERROR lg, r)
        else
     let lg = Log ''Device and swap chain created successfully'' LOG_INFO lg;
         lg = Log ''Creating render target view...'' LOG_INFO lg;
         (ok, lg, r) = VolumeRenderer_CreateRenderTargetView env (lg, r)
     in if \<not> ok then (False, Log ''Failed to create render target view'' LOG_ERROR lg, r)
        else
     let lg = Log ''Render target view created successfully'' LOG_INFO lg;
         lg = Log ''Creating depth stencil view...'' LOG_INFO lg;
         (ok, lg, r) = VolumeRenderer_CreateDepthStencilView env width height (lg, r)
     in if \<not> ok then (False, Log ''Failed to create depth stencil view'' LOG_ERROR lg, r)
        else
     let lg = Log ''Depth stencil view created successfully'' LOG_INFO lg;
         lg = Log ''Setting up viewport...'' LOG_INFO lg;
         (lg, r) = VolumeRenderer_SetupViewport width height (lg, r);
         lg = Log ''Creating shaders and input layout...'' LOG_INFO lg;
         (ok, lg, r) = VolumeRenderer_CreateShaders env (lg, r)
     in if \<not> ok then (False, Log ''Failed to create shaders'' LOG_ERROR lg, r)
        else
     let lg = Log ''Shaders and input layout created successfully'' LOG_INFO lg;
         lg = Log ''Creating constant buffers...'' LOG_INFO lg;
         (ok, lg, r) = VolumeRenderer_CreateConstantBuffers env (lg, r)
     in if \<not> ok then (False, Log ''Failed to create constant buffers'' LOG_ERROR lg, r)
        else
     let lg = Log ''Constant buffers created successfully'' LOG_INFO lg;
         lg = Log ''Creating samplers...'' LOG_INFO lg;
         (ok, lg, r) = VolumeRenderer_CreateSamplers env (lg, r)
     in if \<not> ok then (False, Log ''Failed to create samplers'' LOG_ERROR lg, r)
        else
     let lg = Log ''Samplers created successfully'' LOG_INFO lg;
         lg = Log ''Creating vertex and index buffers...'' LOG_INFO lg;
         r = r\<lparr>m_vertexBuffer := hr_CreateBuffer_vertex env\<rparr>
     in if \<not> hr_CreateBuffer_vertex env then
          (False, Log ''Failed to create vertex buffer, HRESULT: 0x%08X'' LOG_ERROR lg, r)
        else
     let r = r\<lparr>m_indexBuffer := hr_CreateBuffer_index env\<rparr>
     in if \<not> hr_CreateBuffer_index env then
          (False, Log ''Failed to create index buffer, HRESULT: 0x%08X'' LOG_ERROR lg, r)
        else
     let lg = Log ''Vertex and index buffers created successfully'' LOG_INFO lg;
         lg = Log ''Initializing default materials...'' LOG_INFO lg;
         r = r\<lparr>m_materials := vector_resize 256 (XMFLOAT4 (Num 0) (Num 0) (Num 0) (Num 0)) (m_materials r)\<rparr>
     in (True, Log ''VolumeRenderer initialized successfully'' LOG_INFO lg, r))"

definition VolumeRenderer_Shutdown :: "logger \<times> VolumeRenderer \<Rightarrow> logger \<times> VolumeRenderer" where
  "VolumeRenderer_Shutdown = (\<lambda>(lg, r).
     let lg = Log ''VolumeRenderer::Shutdown called'' LOG_INFO lg;
         (lg, r) =
           (if m_context r then
              (Log ''Clearing device context state'' LOG_INFO lg,
               r\<lparr>issued := issued r @ [''ClearState'', ''Flush'']\<rparr>)
            else (lg, r));
         lg = Log ''Releasing DirectX resources'' LOG_INFO lg;
         r = r\<lparr>m_materialBuffer := None\<rparr>;
         r = r\<lparr>m_constantBuffer := False\<rparr>;
         r = r\<lparr>m_indexBuffer := False\<rparr>;
         r = r\<lparr>m_vertexBuffer := False\<rparr>;
         r = r\<lparr>m_volumeSampler := False\<rparr>;
         r = r\<lparr>m_labelSRV := None\<rparr>;
         r = r\<lparr>m_labelTexture := None\<rparr>;
         r = r\<lparr>m_volumeSRV := None\<rparr>;
         r = r\<lparr>m_volumeTexture := None\<rparr>;
         r = r\<lparr>m_inputLayout := False\<rparr>;
         r = r\<lparr>m_pixelShader := False\<rparr>;
         r = r\<lparr>m_vertexShader := False\<rparr>;
         r = r\<lparr>m_depthStencilView := False\<rparr>;
         r = r\<lparr>m_renderTargetView := False\<rparr>;
         r = r\<lparr>m_swapChain := False\<rparr>;
         r = r\<lparr>m_context := False\<rparr>;
         r = r\<lparr>m_device := False\<rparr>
     in (Log ''VolumeRenderer shutdown complete'' LOG_INFO lg, r))"

text \<open>The destructor; the object is gone afterwards, only the log remains.\<close>

definition VolumeRenderer_dtor :: "logger \<times> VolumeRenderer \<Rightarrow> logger" where
  "VolumeRenderer_dtor = (\<lambda>(lg, r).
     fst (VolumeRenderer_Shutdown (Log ''VolumeRenderer destructor called'' LOG_INFO lg, r)))"

subsection \<open>Volume and label textures (VolumeRenderer.cpp)\<close>

definition VolumeRenderer_CreateVolumeTexture ::
  "d3d \<Rightarrow> 8 word list option \<Rightarrow> logger \<times> VolumeRenderer \<Rightarrow> bool \<times> logger \<times> VolumeRenderer" where
  "VolumeRenderer_CreateVolumeTexture env data = (\<lambda>(lg, r).
     let lg = Log ''CreateVolumeTexture called'' LOG_INFO lg
     in if \<not> m_device r then
          (False, Log ''Cannot create volume texture - device is null'' LOG_ERROR lg, r)
        else if m_volumeWidth r \<le> 0 \<or> m_volumeHeight r \<le> 0 \<or> m_volumeDepth r \<le> 0 then
          (False, Log ''Invalid volume dimensions: %dx%dx%d'' LOG_ERROR lg, r)
        else case data of
          None \<Rightarrow> (False, Log ''Volume data pointer is null'' LOG_ERROR lg, r)
        | Some bytes \<Rightarrow>
     let tex = \<lparr> Width = m_volumeWidth r, Height = m_volumeHeight r, Depth = m_volumeDepth r,
                 pSysMem = bytes, SysMemPitch = m_volumeWidth r,
                 SysMemSlicePitch = m_volumeWidth r * m_volumeHeight r \<rparr>;
         lg = Log ''Creating 3D texture: %dx%dx%d'' LOG_INFO lg;
         r = r\<lparr>m_volumeTexture := (if hr_CreateTexture3D env then Some tex else None)\<rparr>
     in if \<not> hr_CreateTexture3D env then
          (False, Log ''CreateTexture3D failed, HRESULT: 0x%08X'' LOG_ERROR lg, r)
        else
     let r = r\<lparr>m_volumeSRV :=
               (if hr_CreateShaderResourceView env then m_volumeTexture r else None)\<rparr>
     in if \<not> hr_CreateShaderResourceView env then
          (False, Log ''CreateShaderResourceView failed, HRESULT: 0x%08X'' LOG_ERROR lg, r)
        else (True, Log ''Volume texture created successfully'' LOG_INFO lg, r))"

definition VolumeRenderer_CreateLabelTexture ::
  "d3d \<Rightarrow> 8 word list option \<Rightarrow> logger \<times> VolumeRenderer \<Rightarrow> bool \<times> logger \<times> VolumeRenderer" where
  "VolumeRenderer_CreateLabelTexture env data = (\<lambda>(lg, r).
     let lg = Log ''CreateLabelTexture called'' LOG_INFO lg
     in if \<not> m_device r then
          (False, Log ''Cannot create label texture - device is null'' LOG_ERROR lg, r)
        else if m_volumeWidth r \<le> 0 \<or> m_volumeHeight r \<le> 0 \<or> m_volumeDepth r \<le> 0 then
          (False, Log ''Invalid volume dimensions: %dx%dx%d'' LOG_ERROR lg, r)
        else case data of
          None \<Rightarrow> (False, Log ''Label data pointer is null'' LOG_ERROR lg, r)
        | Some bytes \<Rightarrow>
     let tex = \<lparr> Width = m_volumeWidth r, Height = m_volumeHeight r, Depth = m_volumeDepth r,
                 pSysMem = bytes, SysMemPitch = m_volumeWidth r,
                 SysMemSlicePitch = m_volumeWidth r * m_volumeHeight r \<rparr>;
         lg = Log ''Creating 3D label texture: %dx%dx%d'' LOG_INFO lg;
         r = r\<lparr>m_labelTexture := (if hr_CreateTexture3D env then Some tex else None)\<rparr>
     in if \<not> hr_CreateTexture3D env then
          (False, Log ''CreateTexture3D for labels failed, HRESULT: 0x%08X'' LOG_ERROR lg, r)
        else
     let r = r\<lparr>m_labelSRV :=
               (if hr_CreateShaderResourceView env then m_labelTexture r else None)\<rparr>
     in if \<not> hr_CreateShaderResourceView env then
          (False, Log ''CreateShaderResourceView for labels failed, HRESULT: 0x%08X'' LOG_ERROR lg, r)
        else (True, Log ''Label texture created successfully'' LOG_INFO lg, r))"

definition VolumeRenderer_LoadVolumeData ::
  "d3d \<Rightarrow> 8 word list option \<Rightarrow> int \<Rightarrow> int \<Rightarrow> int \<Rightarrow> cfloat \<Rightarrow> logger \<times> VolumeRenderer
     \<Rightarrow> bool \<times> logger \<times> VolumeRenderer" where
  "VolumeRenderer_LoadVolumeData env data width height depth voxelSize = (\<lambda>(lg, r).
     let lg = Log ''LoadVolumeData: %dx%dx%d, voxel size: %f'' LOG_INFO lg
     in if data = None then (False, Log ''Volume data pointer is null'' LOG_ERROR lg, r)
        else if width \<le> 0 \<or> height \<le> 0 \<or> depth \<le> 0 then
          (False, Log ''Invalid volume dimensions: %dx%dx%d'' LOG_ERROR lg, r)
        else
     let r = r\<lparr>m_volumeWidth := width\<rparr>;
         r = r\<lparr>m_volumeHeight := height\<rparr>;
         r = r\<lparr>m_volumeDepth := depth\<rparr>;
         r = r\<lparr>m_voxelSize := voxelSize\<rparr>;
         (result, lg, r) = VolumeRenderer_CreateVolumeTexture env data (lg, r);
         lg = (if \<not> result then Log ''Failed to create volume texture'' LOG_ERROR lg
               else Log ''Volume texture created successfully'' LOG_INFO lg)
     in (result, lg, r))"

definition VolumeRenderer_LoadLabelData ::
  "d3d \<Rightarrow> 8 word list option \<Rightarrow> int \<Rightarrow> int \<Rightarrow> int \<Rightarrow> logger \<times> VolumeRenderer
     \<Rightarrow> bool \<times> logger \<times> VolumeRenderer" where
  "VolumeRenderer_LoadLabelData env data width height depth = (\<lambda>(lg, r).
     let lg = Log ''LoadLabelData: %dx%dx%d'' LOG_INFO lg
     in if data = None then (False, Log ''Label data pointer is null'' LOG_ERROR lg, r)
        else if width \<le> 0 \<or> height \<le> 0 \<or> depth \<le> 0 then
          (False, Log ''Invalid label dimensions: %dx%dx%d'' LOG_ERROR lg, r)
        else
     let (result, lg, r) = VolumeRenderer_CreateLabelTexture env data (lg, r);
         lg = (if \<not> result then Log ''Failed to create label texture'' LOG_ERROR lg
               else Log ''Label texture created successfully'' LOG_INFO lg)
     in (result, lg, r))"

subsection \<open>The material table (VolumeRenderer.cpp)\<close>

text \<open>Reading \<open>colors[i]\<close> beyond the array and writing \<open>m_materials[i]\<close> beyond the vector
  are undefined behaviour in the program; the model stops there with a \<open>fault\<close>, which no
  handler catches.\<close>

datatype fault = read_past_end | write_past_end

text \<open>The loop \<^verbatim>\<open>for (int i = 0; i < count; i++)\<close>; \<open>i\<close> is never negative. A channel
  is a byte divided by 255, hence a number.\<close>

function material_loop ::
  "32 word list \<Rightarrow> int \<Rightarrow> nat \<Rightarrow> XMFLOAT4 list \<Rightarrow> fault + XMFLOAT4 list" where
  "material_loop colors count i materials =
     (if int i < count then
        if length colors \<le> i then Inl read_past_end
        else
          let argb = colors ! i;
              a = Num (real (unat (signed_drop_bit 24 argb AND 0xFF)) / 255);
              r = Num (real (unat (signed_drop_bit 16 argb AND 0xFF)) / 255);
              g = Num (real (unat (signed_drop_bit 8 argb AND 0xFF)) / 255);
              b = Num (real (unat (argb AND 0xFF)) / 255)
          in if length materials \<le> i then Inl write_past_end
             else material_loop colors count (i + 1) (materials[i := XMFLOAT4 r g b a])
      else Inr materials)"
  by pat_completeness auto
termination
  by (relation "measure (\<lambda>(colors, count, i, materials). nat (count - int i))") auto

declare material_loop.simps [simp del]

definition VolumeRenderer_UpdateMaterials ::
  "d3d \<Rightarrow> 32 word list option \<Rightarrow> int \<Rightarrow> logger \<times> VolumeRenderer
     \<Rightarrow> fault + logger \<times> VolumeRenderer" where
  "VolumeRenderer_UpdateMaterials env colors count = (\<lambda>(lg, r).
     let lg = Log ''UpdateMaterials: count = %d'' LOG_INFO lg
     in case colors of
          None \<Rightarrow> Inr (Log ''Colors pointer is null'' LOG_ERROR lg, r)
        | Some cs \<Rightarrow>
     let (lg, count) =
           (if count \<le> 0 \<or> count > 256 then
              (Log ''Invalid color count: %d, clamping to 256'' LOG_WARNING lg,
               min_macro 256 (max_macro 1 count))
            else (lg, count))
     in (case material_loop cs count 0 (m_materials r) of
          Inl f \<Rightarrow> Inl f
        | Inr materials \<Rightarrow>
     let r = r\<lparr>m_materials := materials\<rparr>
     in if m_context r \<and> m_materialBuffer r \<noteq> None then
          let lg = Log ''Updating material buffer on GPU'' LOG_INFO lg
          in if hr_Map env then
               Inr (Log ''Material buffer updated successfully'' LOG_INFO lg,
                    r\<lparr>m_materialBuffer := Some (m_materials r),
                      issued := issued r @ [''Map'', ''Unmap'']\<rparr>)
             else
               Inr (Log ''Failed to map material buffer, HRESULT: 0x%08X'' LOG_ERROR lg,
                    r\<lparr>issued := issued r @ [''Map'']\<rparr>)
        else Inr (Log ''Cannot update materials - context or material buffer is null'' LOG_ERROR lg, r)))"

subsection \<open>Rendering a frame (VolumeRenderer.cpp)\<close>

text \<open>A step of the render sequence either returns the next state or raises an exception,
  which carries the state reached. \<open>ctx_call\<close> is a call on the device context or the swap
  chain: it raises when \<open>raises\<close> says so and is recorded in \<open>issued\<close> otherwise. The
  matrices and parameters written into the constant buffers are not modelled.\<close>

definition ctx_call ::
  "d3d \<Rightarrow> string \<Rightarrow> logger \<times> VolumeRenderer
     \<Rightarrow> (exn \<times> logger \<times> VolumeRenderer) + logger \<times> VolumeRenderer" where
  "ctx_call env name = (\<lambda>(lg, r).
     case raises env name of
       Some e \<Rightarrow> Inl (e, lg, r)
     | None \<Rightarrow> Inr (lg, r\<lparr>issued := issued r @ [name]\<rparr>))"

fun seq_steps :: "('s \<Rightarrow> ('e \<times> 's) + 's) list \<Rightarrow> 's \<Rightarrow> ('e \<times> 's) + 's" where
  "seq_steps [] s = Inr s"
| "seq_steps (step # steps) s =
     (case step s of Inl e \<Rightarrow> Inl e | Inr s' \<Rightarrow> seq_steps steps s')"

text \<open>The two handlers \<^verbatim>\<open>catch (std::exception& e)\<close> and \<^verbatim>\<open>catch (...)\<close> that close every
  \<^verbatim>\<open>try\<close> block of the sources. The handlers themselves are taken to return.\<close>

definition catch_all ::
  "string \<Rightarrow> string \<Rightarrow> (exn \<times> logger \<times> 'a) + logger \<times> 'a \<Rightarrow> (exn \<times> logger \<times> 'a) + logger \<times> 'a" where
  "catch_all prefix unknown outcome =
     (case outcome of
        Inr s \<Rightarrow> Inr s
      | Inl (std_exception what, lg, x) \<Rightarrow> Inr (Log (prefix @ what) LOG_ERROR lg, x)
      | Inl (unknown_exception, lg, x) \<Rightarrow> Inr (Log unknown LOG_ERROR lg, x))"

definition VolumeRenderer_UpdateConstantBuffers ::
  "d3d \<Rightarrow> logger \<times> VolumeRenderer
     \<Rightarrow> (exn \<times> logger \<times> VolumeRenderer) + logger \<times> VolumeRenderer" where
  "VolumeRenderer_UpdateConstantBuffers env = (\<lambda>(lg, r).
     if \<not> m_context r \<or> \<not> m_constantBuffer r then
       Inr (Log ''Cannot update constant buffers - context or buffer is null'' LOG_ERROR lg, r)
     else seq_steps
       [ctx_call env ''UpdateSubresource(m_constantBuffer)'',
        (\<lambda>(lg, r).
           if hr_CreateBuffer_renderParams env then
             seq_steps
               [ctx_call env ''UpdateSubresource(renderParamsBuffer)'',
                ctx_call env ''PSSetConstantBuffers(1)''] (lg, r)
           else Inr (Log ''Failed to create render params buffer, HRESULT: 0x%08X'' LOG_ERROR lg, r)),
        (\<lambda>(lg, r).
           if m_materialSRV r then ctx_call env ''PSSetShaderResources(2)'' (lg, r)
           else Inr (Log ''Material shader resource view is null'' LOG_WARNING lg, r))]
       (lg, r))"

text \<open>The body of the \<^verbatim>\<open>try\<close> block of \<^verbatim>\<open>VolumeRenderer::Render\<close>.\<close>

definition VolumeRenderer_Render_try ::
  "d3d \<Rightarrow> logger \<times> VolumeRenderer
     \<Rightarrow> (exn \<times> logger \<times> VolumeRenderer) + logger \<times> VolumeRenderer" where
  "VolumeRenderer_Render_try env = (\<lambda>(lg, r).
     if \<not> m_context r \<or> \<not> m_device r \<or> \<not> m_swapChain r then
       Inr (Log ''Cannot render - DirectX resources not initialized'' LOG_ERROR lg, r)
     else seq_steps
       [ctx_call env ''ClearRenderTargetView'',
        ctx_call env ''ClearDepthStencilView'',
        ctx_call env ''OMSetRenderTargets'',
        ctx_call env ''IASetVertexBuffers'',
        ctx_call env ''IASetIndexBuffer'',
        ctx_call env ''IASetPrimitiveTopology'',
        ctx_call env ''IASetInputLayout'',
        ctx_call env ''VSSetShader'',
        VolumeRenderer_UpdateConstantBuffers env,
        ctx_call env ''VSSetConstantBuffers(0)'',
        ctx_call env ''PSSetConstantBuffers(0)'',
        ctx_call env ''PSSetShader'',
        (\<lambda>(lg, r).
           if m_volumeSRV r \<noteq> None then ctx_call env ''PSSetShaderResources(0)'' (lg, r)
           else Inr (Log ''Volume shader resource view is null during render'' LOG_WARNING lg, r)),
        (\<lambda>(lg, r).
           if m_labelSRV r \<noteq> None then ctx_call env ''PSSetShaderResources(1)'' (lg, r)
           else Inr (Log ''Label shader resource view is null during render'' LOG_INFO lg, r)),
        (\<lambda>(lg, r).
           if m_volumeSampler r then ctx_call env ''PSSetSamplers(0)'' (lg, r)
           else Inr (Log ''Volume sampler is null during render'' LOG_WARNING lg, r)),
        ctx_call env ''DrawIndexed'',
        ctx_call env ''Present'',
        (\<lambda>(lg, r).
           if \<not> hr_Present env then
             Inr (Log ''SwapChain Present failed, HRESULT: 0x%08X'' LOG_ERROR lg, r)
           else Inr (lg, r))]
       (lg, r))"

definition VolumeRenderer_Render ::
  "d3d \<Rightarrow> logger \<times> VolumeRenderer
     \<Rightarrow> (exn \<times> logger \<times> VolumeRenderer) + logger \<times> VolumeRenderer" where
  "VolumeRenderer_Render env s =
     catch_all ''Exception in Render: '' ''Unknown exception in Render''
       (VolumeRenderer_Render_try env s)"

subsection \<open>Resize and the parameter setters (VolumeRenderer.cpp)\<close>

definition VolumeRenderer_Resize ::
  "d3d \<Rightarrow> int \<Rightarrow> int \<Rightarrow> logger \<times> VolumeRenderer \<Rightarrow> logger \<times> VolumeRenderer" where
  "VolumeRenderer_Resize env width height = (\<lambda>(lg, r).
     let lg = Log ''Resize called: %dx%d'' LOG_INFO lg
     in if width \<le> 0 \<or> height \<le> 0 then
          (Log ''Invalid resize dimensions: %dx%d'' LOG_ERROR lg, r)
        else if \<not> m_device r \<or> \<not> m_swapChain r then
          (Log ''Cannot resize - device or swap chain is null'' LOG_ERROR lg, r)
        else
     let lg = Log ''Releasing render target and depth stencil'' LOG_INFO lg;
         r = r\<lparr>m_renderTargetView := False\<rparr>;
         r = r\<lparr>m_depthStencilView := False\<rparr>;
         lg = Log ''Resizing swap chain buffers'' LOG_INFO lg
     in if \<not> hr_ResizeBuffers env then
          (Log ''ResizeBuffers failed, HRESULT: 0x%08X'' LOG_ERROR lg, r)
        else
     let lg = Log ''Recreating render target view'' LOG_INFO lg
     in if \<not> hr_GetBuffer env then
          (Log ''GetBuffer failed, HRESULT: 0x%08X'' LOG_ERROR lg, r)
        else
     let r = r\<lparr>m_renderTargetView := hr_CreateRenderTargetView env\<rparr>
     in if \<not> hr_CreateRenderTargetView env then
          (Log ''CreateRenderTargetView failed, HRESULT: 0x%08X'' LOG_ERROR lg, r)
        else
     let lg = Log ''Recreating depth stencil view'' LOG_INFO lg;
         (ok, lg, r) = VolumeRenderer_CreateDepthStencilView env width height (lg, r)
     in if \<not> ok then (Log ''Failed to recreate depth stencil view'' LOG_ERROR lg, r)
        else
     let lg = Log ''Updating viewport'' LOG_INFO lg;
         r = r\<lparr>m_width := width\<rparr>;
         r = r\<lparr>m_height := height\<rparr>;
         (lg, r) = VolumeRenderer_SetupViewport width height (lg, r)
     in (Log ''Resize completed successfully'' LOG_INFO lg, r))"

definition VolumeRenderer_SetOpacity :: "cfloat \<Rightarrow> VolumeRenderer \<Rightarrow> VolumeRenderer" where
  "VolumeRenderer_SetOpacity opacity r = r\<lparr>m_opacity := max_macro (Num 0) (min_macro (Num 1) opacity)\<rparr>"

definition VolumeRenderer_SetBrightness :: "cfloat \<Rightarrow> VolumeRenderer \<Rightarrow> VolumeRenderer" where
  "VolumeRenderer_SetBrightness brightness r =
     r\<lparr>m_brightness := max_macro (Num (- 1)) (min_macro (Num 1) brightness)\<rparr>"

definition VolumeRenderer_SetContrast :: "cfloat \<Rightarrow> VolumeRenderer \<Rightarrow> VolumeRenderer" where
  "VolumeRenderer_SetContrast contrast r =
     r\<lparr>m_contrast := max_macro (Num (1 / 10)) (min_macro (Num 5) contrast)\<rparr>"

definition VolumeRenderer_SetRenderMode :: "int \<Rightarrow> VolumeRenderer \<Rightarrow> VolumeRenderer" where
  "VolumeRenderer_SetRenderMode mode r = r\<lparr>m_renderMode := mode\<rparr>"

definition VolumeRenderer_SetShowLabels :: "bool \<Rightarrow> VolumeRenderer \<Rightarrow> VolumeRenderer" where
  "VolumeRenderer_SetShowLabels show r = r\<lparr>m_showLabels := show\<rparr>"

subsection \<open>The exported entry points (CTViewer.cpp)\<close>

text \<open>The process-wide state is the logger and \<open>g_renderer\<close>, the owning pointer to the
  renderer (\<^term>\<open>None\<close> when null). A message built by concatenation with
  \<^verbatim>\<open>std::to_string\<close> is written as a format string. Every entry point is a \<^verbatim>\<open>try\<close>
  block closed by the two handlers; exceptions are raised in the model by the render
  sequence only, so the handlers appear in \<open>Render\<close> alone.\<close>

type_synonym globals = "logger \<times> VolumeRenderer option"

definition SetLogCallback :: "bool \<Rightarrow> globals \<Rightarrow> globals" where
  "SetLogCallback callback = (\<lambda>(lg, g_renderer).
     (Log ''C++ logging callback initialized'' LOG_INFO (lg\<lparr>g_logCallback := callback\<rparr>),
      g_renderer))"

text \<open>Assigning the new renderer to \<open>g_renderer\<close> destroys the one it held.\<close>

definition Initialize :: "d3d \<Rightarrow> bool \<Rightarrow> int \<Rightarrow> int \<Rightarrow> globals \<Rightarrow> bool \<times> globals" where
  "Initialize env hwnd width height = (\<lambda>(lg, g_renderer).
     let lg = Log ''Initialize DirectX renderer called'' LOG_INFO lg
     in if \<not> hwnd then
          (False, Log ''Failed to initialize: Invalid window handle (null)'' LOG_ERROR lg, g_renderer)
        else if width \<le> 0 \<or> height \<le> 0 then
          (False, Log ''Failed to initialize: Invalid dimensions: %dx%d'' LOG_ERROR lg, g_renderer)
        else
     let lg = Log ''Creating VolumeRenderer instance'' LOG_INFO lg;
         (lg, r) = VolumeRenderer_ctor (uninit_width env) (uninit_height env) lg;
         lg = (case g_renderer of None \<Rightarrow> lg | Some old \<Rightarrow> VolumeRenderer_dtor (lg, old));
         lg = Log ''Initializing renderer with dimensions: %dx%d'' LOG_INFO lg;
         (result, lg, r) = VolumeRenderer_Initialize env hwnd width height (lg, r);
         lg = (if \<not> result then Log ''DirectX renderer initialization failed'' LOG_ERROR lg
               else Log ''DirectX renderer initialized successfully'' LOG_INFO lg)
     in (result, lg, Some r))"

definition Shutdown :: "globals \<Rightarrow> globals" where
  "Shutdown = (\<lambda>(lg, g_renderer).
     let lg = Log ''Shutting down DirectX renderer'' LOG_INFO lg
     in case g_renderer of
          Some r \<Rightarrow>
            let (lg, r) = VolumeRenderer_Shutdown (lg, r);
                lg = VolumeRenderer_dtor (lg, r)
            in (Log ''DirectX renderer shutdown complete'' LOG_INFO lg, None)
        | None \<Rightarrow> (Log ''Shutdown called but renderer was not initialized'' LOG_WARNING lg, None))"

definition Render :: "d3d \<Rightarrow> globals \<Rightarrow> (exn \<times> globals) + globals" where
  "Render env = (\<lambda>(lg, g_renderer).
     catch_all ''Exception during render: '' ''Unknown exception during render''
       (case g_renderer of
          Some r \<Rightarrow>
            (case VolumeRenderer_Render env (lg, r) of
               Inl (e, lg, r) \<Rightarrow> Inl (e, lg, Some r)
             | Inr (lg, r) \<Rightarrow> Inr (lg, Some r))
        | None \<Rightarrow> Inr (Log ''Render called but renderer is not initialized'' LOG_ERROR lg, None)))"

definition LoadVolumeData ::
  "d3d \<Rightarrow> 8 word list option \<Rightarrow> int \<Rightarrow> int \<Rightarrow> int \<Rightarrow> cfloat \<Rightarrow> globals \<Rightarrow> bool \<times> globals" where
  "LoadVolumeData env data width height depth voxelSize = (\<lambda>(lg, g_renderer).
     case g_renderer of
       None \<Rightarrow> (False, Log ''LoadVolumeData called but renderer is not initialized'' LOG_ERROR lg, None)
     | Some r \<Rightarrow>
     let lg = Log ''Loading volume data: %dx%dx%d with voxel size: %f'' LOG_INFO lg
     in if data = None then
          (False, Log ''Failed to load volume data: Data pointer is null'' LOG_ERROR lg, Some r)
        else if width \<le> 0 \<or> height \<le> 0 \<or> depth \<le> 0 then
          (False, Log ''Failed to load volume data: Invalid dimensions'' LOG_ERROR lg, Some r)
        else
     let (result, lg, r) = VolumeRenderer_LoadVolumeData env data width height depth voxelSize (lg, r);
         lg = (if result then Log ''Volume data loaded successfully'' LOG_INFO lg
               else Log ''Failed to load volume data'' LOG_ERROR lg)
     in (result, lg, Some r))"

definition LoadLabelData ::
  "d3d \<Rightarrow> 8 word list option \<Rightarrow> int \<Rightarrow> int \<Rightarrow> int \<Rightarrow> globals \<Rightarrow> bool \<times> globals" where
  "LoadLabelData env data width height depth = (\<lambda>(lg, g_renderer).
     case g_renderer of
       None \<Rightarrow> (False, Log ''LoadLabelData called but renderer is not initialized'' LOG_ERROR lg, None)
     | Some r \<Rightarrow>
     let lg = Log ''Loading label data: %dx%dx%d'' LOG_INFO lg
     in if data = None then
          (False, Log ''Failed to load label data: Data pointer is null'' LOG_ERROR lg, Some r)
        else if width \<le> 0 \<or> height \<le> 0 \<or> depth \<le> 0 then
          (False, Log ''Failed to load label data: Invalid dimensions'' LOG_ERROR lg, Some r)
        else
     let (result, lg, r) = VolumeRenderer_LoadLabelData env data width height depth (lg, r);
         lg = (if result then Log ''Label data loaded successfully'' LOG_INFO lg
               else Log ''Failed to load label data'' LOG_ERROR lg)
     in (result, lg, Some r))"

definition UpdateMaterials :: "d3d \<Rightarrow> 32 word list option \<Rightarrow> int \<Rightarrow> globals \<Rightarrow> fault + globals" where
  "UpdateMaterials env colors count = (\<lambda>(lg, g_renderer).
     case g_renderer of
       None \<Rightarrow> Inr (Log ''UpdateMaterials called but renderer is not initialized'' LOG_ERROR lg, None)
     | Some r \<Rightarrow>
     let lg = Log ''Updating %d materials'' LOG_INFO lg
     in if colors = None then
          Inr (Log ''Failed to update materials: Colors pointer is null'' LOG_ERROR lg, Some r)
        else if count \<le> 0 then
          Inr (Log ''Failed to update materials: Invalid count'' LOG_WARNING lg, Some r)
        else
          (case VolumeRenderer_UpdateMaterials env colors count (lg, r) of
             Inl f \<Rightarrow> Inl f
           | Inr (lg, r) \<Rightarrow> Inr (Log ''Materials updated successfully'' LOG_INFO lg, Some r)))"

definition Resize :: "d3d \<Rightarrow> int \<Rightarrow> int \<Rightarrow> globals \<Rightarrow> globals" where
  "Resize env width height = (\<lambda>(lg, g_renderer).
     case g_renderer of
       None \<Rightarrow> (Log ''Resize called but renderer is not initialized'' LOG_ERROR lg, None)
     | Some r \<Rightarrow>
     let lg = Log ''Resizing renderer to %dx%d'' LOG_INFO lg
     in if width \<le> 0 \<or> height \<le> 0 then
          (Log ''Failed to resize: Invalid dimensions'' LOG_ERROR lg, Some r)
        else
     let (lg, r) = VolumeRenderer_Resize env width height (lg, r)
     in (Log ''Renderer resized successfully'' LOG_INFO lg, Some r))"

definition RotateCamera :: "cfloat \<Rightarrow> cfloat \<Rightarrow> globals \<Rightarrow> globals" where
  "RotateCamera deltaX deltaY = (\<lambda>(lg, g_renderer).
     case g_renderer of
       None \<Rightarrow> (Log ''RotateCamera called but renderer is not initialized'' LOG_ERROR lg, None)
     | Some r \<Rightarrow>
     let (lg, r) = VolumeRenderer_RotateCamera deltaX deltaY (lg, r)
     in (lg, Some r))"

definition ZoomCamera :: "cfloat \<Rightarrow> globals \<Rightarrow> globals" where
  "ZoomCamera delta = (\<lambda>(lg, g_renderer).
     case g_renderer of
       None \<Rightarrow> (Log ''ZoomCamera called but renderer is not initialized'' LOG_ERROR lg, None)
     | Some r \<Rightarrow>
     let (lg, r) = VolumeRenderer_ZoomCamera delta (lg, r)
     in (lg, Some r))"

definition ResetCamera :: "globals \<Rightarrow> globals" where
  "ResetCamera = (\<lambda>(lg, g_renderer).
     case g_renderer of
       None \<Rightarrow> (Log ''ResetCamera called but renderer is not initialized'' LOG_ERROR lg, None)
     | Some r \<Rightarrow>
     let lg = Log ''Resetting camera'' LOG_INFO lg;
         (lg, r) = VolumeRenderer_ResetCamera (lg, r)
     in (lg, Some r))"

definition SetRenderingParams :: "cfloat \<Rightarrow> cfloat \<Rightarrow> cfloat \<Rightarrow> int \<Rightarrow> bool \<Rightarrow> globals \<Rightarrow> globals" where
  "SetRenderingParams opacity brightness contrast renderMode showLabels = (\<lambda>(lg, g_renderer).
     case g_renderer of
       None \<Rightarrow> (Log ''SetRenderingParams called but renderer is not initialized'' LOG_ERROR lg, None)
     | Some r \<Rightarrow>
     let lg = Log ''Setting rendering params: opacity=%f, brightness=%f, contrast=%f, renderMode=%d, showLabels=%d''
                LOG_INFO lg;
         r = VolumeRenderer_SetOpacity opacity r;
         r = VolumeRenderer_SetBrightness brightness r;
         r = VolumeRenderer_SetContrast contrast r;
         r = VolumeRenderer_SetRenderMode renderMode r;
         r = VolumeRenderer_SetShowLabels showLabels r
     in (lg, Some r))"

subsection \<open>Call sequences and sample inputs\<close>

text \<open>A host that rotates, or zooms, several times in a row; and one that mixes both.\<close>

definition rotate_calls ::
  "(cfloat \<times> cfloat) list \<Rightarrow> logger \<times> VolumeRenderer \<Rightarrow> logger \<times> VolumeRenderer" where
  "rotate_calls ds s = fold (\<lambda>(deltaX, deltaY). VolumeRenderer_RotateCamera deltaX deltaY) ds s"

definition zoom_calls :: "cfloat list \<Rightarrow> logger \<times> VolumeRenderer \<Rightarrow> logger \<times> VolumeRenderer" where
  "zoom_calls ds s = fold VolumeRenderer_ZoomCamera ds s"

datatype camera_call = RotateCall cfloat cfloat | ZoomCall cfloat

fun do_camera_call :: "camera_call \<Rightarrow> logger \<times> VolumeRenderer \<Rightarrow> logger \<times> VolumeRenderer" where
  "do_camera_call (RotateCall deltaX deltaY) s = VolumeRenderer_RotateCamera deltaX deltaY s"
| "do_camera_call (ZoomCall delta) s = VolumeRenderer_ZoomCamera delta s"

text \<open>A logger with a registered sink that has received nothing yet, and a renderer as
  the constructor leaves it.\<close>

definition listening :: logger where
  "listening = \<lparr>g_logCallback = True, delivered = []\<rparr>"

definition constructed :: "logger \<times> VolumeRenderer" where
  "constructed = VolumeRenderer_ctor 0 0 listening"

text \<open>An environment in which every Direct3D call succeeds (a release build), the
  process after a successful \<open>Initialize\<close>, and the process after an \<open>Initialize\<close> whose
  device creation failed.\<close>

definition d3d_all_ok :: d3d where
  "d3d_all_ok = \<lparr> debug_build = False, uninit_width = 0, uninit_height = 0,
     hr_D3D11CreateDeviceAndSwapChain = True, hr_D3D11CreateDeviceAndSwapChain_retry = True,
     hr_GetBuffer = True, hr_CreateRenderTargetView = True, hr_CreateTexture2D = True,
     hr_CreateDepthStencilView = True, hr_D3DCompileFromFile_vs = True, errorBlob_vs = None,
     hr_CreateVertexShader = True, hr_CreateInputLayout = True,
     hr_D3DCompileFromFile_ps = True, errorBlob_ps = None, hr_CreatePixelShader = True,
     hr_CreateBuffer_constant = True, hr_CreateBuffer_material = True,
     hr_CreateShaderResourceView_material = True, hr_CreateSamplerState = True,
     hr_CreateBuffer_vertex = True, hr_CreateBuffer_index = True,
     hr_CreateTexture3D = True, hr_CreateShaderResourceView = True, hr_Map = True,
     hr_ResizeBuffers = True, hr_CreateBuffer_renderParams = True, hr_Present = True,
     raises = (\<lambda>name. None) \<rparr>"

definition started :: globals where
  "started = snd (Initialize d3d_all_ok True 800 600 (listening, None))"

definition no_device :: d3d where
  "no_device = d3d_all_ok\<lparr>hr_D3D11CreateDeviceAndSwapChain := False\<rparr>"

definition failed_start :: globals where
  "failed_start = snd (Initialize no_device True 800 600 (listening, None))"

text \<open>An environment in which the creation of a 3D texture fails, and the process
  after a volume of 2 by 3 by 4 voxels has been loaded.\<close>

definition no_texture :: d3d where
  "no_texture = d3d_all_ok\<lparr>hr_CreateTexture3D := False\<rparr>"

definition volume_loaded :: globals where
  "volume_loaded = snd (LoadVolumeData d3d_all_ok (Some (replicate 24 0)) 2 3 4 (Num 1) started)"

text \<open>The process after a first volume load that failed at the texture, and after a
  volume of 2 by 3 by 4 was loaded and a reload of 2 by 2 by 2 failed at the texture.\<close>

definition failed_volume :: globals where
  "failed_volume = snd (LoadVolumeData no_texture (Some (replicate 8 0)) 2 2 2 (Num 1) started)"

definition failed_reload :: globals where
  "failed_reload =
     snd (LoadVolumeData no_texture (Some (replicate 8 0)) 2 2 2 (Num 1) volume_loaded)"

text \<open>An environment in which \<^verbatim>\<open>DrawIndexed\<close> throws, and one in which \<^verbatim>\<open>Present\<close>
  returns a failure code.\<close>

definition draw_raises :: d3d where
  "draw_raises = d3d_all_ok\<lparr>raises :=
     (\<lambda>name. if name = ''DrawIndexed'' then Some (std_exception ''device removed'') else None)\<rparr>"

definition no_present :: d3d where
  "no_present = d3d_all_ok\<lparr>hr_Present := False\<rparr>"

text \<open>The decomposition of a packed colour in the spec's words: alpha is bits 24 to 31,
  red bits 16 to 23, green bits 8 to 15 and blue bits 0 to 7 of the 32-bit value, each
  divided by 255. The table entry holds them in the order red, green, blue, alpha.\<close>

definition argb_bits :: "32 word \<Rightarrow> nat \<Rightarrow> nat" where
  "argb_bits argb lo = (unat argb div 2 ^ lo) mod 256"

definition spec_material :: "32 word \<Rightarrow> XMFLOAT4" where
  "spec_material argb = XMFLOAT4
     (Num (real (argb_bits argb 16) / 255)) (Num (real (argb_bits argb 8) / 255))
     (Num (real (argb_bits argb 0) / 255)) (Num (real (argb_bits argb 24) / 255))"

section \<open>Properties\<close>

subsection \<open>Floating-point values and clamping\<close>

lemma plus_zero_cfloat: "a + Num 0 = a"
  by (cases a) simp_all

lemma number_plus_not_NaN: "d \<noteq> NaN \<Longrightarrow> Num x + d \<noteq> NaN"
  by (cases d) simp_all

lemma number_minus_not_NaN: "d \<noteq> NaN \<Longrightarrow> Num x - d \<noteq> NaN"
  by (cases d) (simp_all add: minus_cfloat_def)

lemma clamp_number:
  assumes "lo \<le> hi" and "v \<noteq> NaN"
  shows "\<exists>y. max_macro (Num lo) (min_macro (Num hi) v) = Num y \<and> lo \<le> y \<and> y \<le> hi"
  using assms by (cases v) (auto simp add: max_macro_def min_macro_def)

lemma clamp_NaN: "max_macro (Num lo) (min_macro (Num hi) NaN) = NaN"
  by (simp add: max_macro_def min_macro_def)

lemma clamp_macro_idem:
  "lo \<le> hi \<Longrightarrow>
     max_macro (Num lo) (min_macro (Num hi) (max_macro (Num lo) (min_macro (Num hi) v))) =
     max_macro (Num lo) (min_macro (Num hi) v)"
  by (cases v) (auto simp add: max_macro_def min_macro_def)

lemma phi_bounds_ordered: "- (pi / 2) + 1 / 10 \<le> pi / 2 - (1 / 10 :: real)"
  using pi_ge_two by simp

lemma phi_lower: "- XM_PIDIV2 + Num (1 / 10) = Num (- (pi / 2) + 1 / 10)"
  by (simp add: XM_PIDIV2_def)

lemma phi_upper: "XM_PIDIV2 - Num (1 / 10) = Num (pi / 2 - 1 / 10)"
  by (simp add: XM_PIDIV2_def minus_cfloat_def)

subsection \<open>The camera\<close>

lemma RotateCamera_phi:
  "m_cameraPhi (snd (VolumeRenderer_RotateCamera deltaX deltaY s)) =
     max_macro (Num (- (pi / 2) + 1 / 10)) (min_macro (Num (pi / 2 - 1 / 10))
       (m_cameraPhi (snd s) + deltaY))"
  by (cases s) (simp add: VolumeRenderer_RotateCamera_def Let_def phi_lower phi_upper)

lemma RotateCamera_radius:
  "m_cameraRadius (snd (VolumeRenderer_RotateCamera deltaX deltaY s)) = m_cameraRadius (snd s)"
  by (cases s) (simp add: VolumeRenderer_RotateCamera_def Let_def)

lemma RotateCamera_position:
  "m_cameraPosition (snd (VolumeRenderer_RotateCamera deltaX deltaY s)) =
     (let r = snd (VolumeRenderer_RotateCamera deltaX deltaY s) in XMFLOAT3
        (f3x (m_focusPoint r) + m_cameraRadius r * cosf (m_cameraPhi r) * sinf (m_cameraTheta r))
        (f3y (m_focusPoint r) + m_cameraRadius r * sinf (m_cameraPhi r))
        (f3z (m_focusPoint r) + m_cameraRadius r * cosf (m_cameraPhi r) * cosf (m_cameraTheta r)))"
  by (cases s) (simp add: VolumeRenderer_RotateCamera_def Let_def)

lemma ZoomCamera_snd:
  "snd (VolumeRenderer_ZoomCamera delta s) =
     snd (VolumeRenderer_RotateCamera (Num 0) (Num 0)
       (fst s, (snd s)\<lparr>m_cameraRadius :=
                  max_macro (Num (1 / 2)) (min_macro (Num 10) (m_cameraRadius (snd s) - delta))\<rparr>))"
  by (cases s) (simp add: VolumeRenderer_ZoomCamera_def Let_def split: prod.splits)

lemma ZoomCamera_radius:
  "m_cameraRadius (snd (VolumeRenderer_ZoomCamera delta s)) =
     max_macro (Num (1 / 2)) (min_macro (Num 10) (m_cameraRadius (snd s) - delta))"
  by (simp add: ZoomCamera_snd RotateCamera_radius)

lemma ZoomCamera_position:
  "m_cameraPosition (snd (VolumeRenderer_ZoomCamera delta s)) =
     (let r = snd (VolumeRenderer_ZoomCamera delta s) in XMFLOAT3
        (f3x (m_focusPoint r) + m_cameraRadius r * cosf (m_cameraPhi r) * sinf (m_cameraTheta r))
        (f3y (m_focusPoint r) + m_cameraRadius r * sinf (m_cameraPhi r))
        (f3z (m_focusPoint r) + m_cameraRadius r * cosf (m_cameraPhi r) * cosf (m_cameraTheta r)))"
  unfolding ZoomCamera_snd by (rule RotateCamera_position)

text \<open>A call whose \<open>deltaY\<close> is not NaN, on a \<open>phi\<close> that is a number, leaves \<open>phi\<close> a number
  between the bounds; so does a sequence of such calls.\<close>

lemma RotateCamera_phi_number:
  assumes "m_cameraPhi (snd s) = Num x" and "deltaY \<noteq> NaN"
  shows "\<exists>y. m_cameraPhi (snd (VolumeRenderer_RotateCamera deltaX deltaY s)) = Num y \<and>
           - (pi / 2) + 1 / 10 \<le> y \<and> y \<le> pi / 2 - 1 / 10"
  unfolding RotateCamera_phi assms(1)
  by (rule clamp_number [OF phi_bounds_ordered number_plus_not_NaN [OF assms(2)]])

lemma rotate_calls_phi_number:
  assumes "\<forall>d \<in> set ds. snd d \<noteq> NaN" and "m_cameraPhi (snd s) = Num x"
  shows "\<exists>y. m_cameraPhi (snd (rotate_calls ds s)) = Num y"
  using assms
proof (induction ds arbitrary: s x)
  case Nil
  then show ?case by (simp add: rotate_calls_def)
next
  case (Cons d ds)
  obtain deltaX deltaY where d: "d = (deltaX, deltaY)" by (cases d)
  have "deltaY \<noteq> NaN" using Cons.prems(1) d by simp
  from RotateCamera_phi_number [OF Cons.prems(2) this, of deltaX]
  obtain y where "m_cameraPhi (snd (VolumeRenderer_RotateCamera deltaX deltaY s)) = Num y"
    by blast
  moreover have "\<forall>d \<in> set ds. snd d \<noteq> NaN" using Cons.prems(1) by simp
  ultimately have "\<exists>y. m_cameraPhi (snd (rotate_calls ds
      (VolumeRenderer_RotateCamera deltaX deltaY s))) = Num y"
    using Cons.IH by blast
  then show ?case by (simp add: rotate_calls_def d)
qed

text \<open>
  Claim C2, as stated: after any sequence of \<open>RotateCamera\<close> calls with arbitrary \<open>deltaY\<close>
  the elevation \<open>phi\<close> lies strictly inside the open interval from \<open>-\<pi>/2 + 0.1\<close> to
  \<open>\<pi>/2 - 0.1\<close>. The code clamps with \<open>max\<close> and \<open>min\<close>. They let \<open>phi\<close> sit on a bound: one
  call with \<open>deltaY = 2\<close> on a new renderer leaves \<open>phi\<close> equal to \<open>\<pi>/2 - 0.1\<close>. And they let
  NaN through, since every comparison with NaN is false: one call with a NaN \<open>deltaY\<close>
  leaves \<open>phi\<close> NaN, and a later call with \<open>deltaY = 1\<close> leaves it NaN still.
\<close>

theorem rotate_phi_reaches_bound:
  "m_cameraPhi (snd (rotate_calls [(Num 0, Num 2)] constructed)) = Num (pi / 2 - 1 / 10) \<and>
   \<not> m_cameraPhi (snd (rotate_calls [(Num 0, Num 2)] constructed)) < Num (pi / 2 - 1 / 10) \<and>
   m_cameraPhi (snd (rotate_calls [(Num 0, NaN)] constructed)) = NaN \<and>
   m_cameraPhi (snd (rotate_calls [(Num 0, NaN), (Num 0, Num 1)] constructed)) = NaN"
proof -
  have "pi / 2 - 1 / 10 < 2" using pi_less_4 by simp
  then have bound: "m_cameraPhi (snd (rotate_calls [(Num 0, Num 2)] constructed)) =
      Num (pi / 2 - 1 / 10)"
    using pi_ge_two
    by (simp add: rotate_calls_def RotateCamera_phi constructed_def VolumeRenderer_ctor_def
        max_macro_def min_macro_def)
  have nan: "m_cameraPhi (snd (rotate_calls [(Num 0, NaN)] constructed)) = NaN"
    by (simp add: rotate_calls_def RotateCamera_phi constructed_def VolumeRenderer_ctor_def
        clamp_NaN)
  have still: "m_cameraPhi (snd (rotate_calls [(Num 0, NaN), (Num 0, Num 1)] constructed)) = NaN"
    by (simp add: rotate_calls_def RotateCamera_phi constructed_def VolumeRenderer_ctor_def
        clamp_NaN)
  show ?thesis
    by (simp add: bound nan still)
qed

text \<open>
  Claim C2, amended: after any non-empty sequence of \<open>RotateCamera\<close> calls in which no
  \<open>deltaY\<close> is NaN (infinite ones are allowed), from any renderer state whose \<open>phi\<close> is a
  number, \<open>phi\<close> is a number in the closed interval from \<open>-\<pi>/2 + 0.1\<close> to \<open>\<pi>/2 - 0.1\<close>.
\<close>

theorem rotate_phi_closed_range:
  assumes "ds \<noteq> []" and "\<forall>d \<in> set ds. snd d \<noteq> NaN" and "m_cameraPhi (snd s) = Num x"
  shows "\<exists>y. m_cameraPhi (snd (rotate_calls ds s)) = Num y \<and>
           - (pi / 2) + 1 / 10 \<le> y \<and> y \<le> pi / 2 - 1 / 10"
proof -
  obtain ds' d where ds: "ds = ds' @ [d]"
    using assms(1) by (cases ds rule: rev_cases) auto
  obtain deltaX deltaY where d: "d = (deltaX, deltaY)" by (cases d)
  have last: "deltaY \<noteq> NaN" and front: "\<forall>d \<in> set ds'. snd d \<noteq> NaN"
    using assms(2) by (simp_all add: ds d)
  obtain x' where "m_cameraPhi (snd (rotate_calls ds' s)) = Num x'"
    using rotate_calls_phi_number [OF front assms(3)] by blast
  from RotateCamera_phi_number [OF this last, of deltaX]
  show ?thesis
    by (simp add: rotate_calls_def ds d)
qed

text \<open>Three calls on a new renderer, the second with an infinite \<open>deltaY\<close>.\<close>

theorem rotate_phi_closed_range_witness:
  "[(Num 1, Num 5), (Num 0, NInf), (Num 0, Num 1)] \<noteq> [] \<and>
   (\<exists>y. m_cameraPhi (snd (rotate_calls [(Num 1, Num 5), (Num 0, NInf), (Num 0, Num 1)]
            constructed)) = Num y \<and>
      - (pi / 2) + 1 / 10 \<le> y \<and> y \<le> pi / 2 - 1 / 10)"
proof -
  have "\<forall>d \<in> set [(Num 1, Num 5), (Num 0, NInf), (Num 0, Num 1)]. snd d \<noteq> NaN"
    by simp
  moreover have "m_cameraPhi (snd constructed) = Num 0"
    by (simp add: constructed_def VolumeRenderer_ctor_def)
  ultimately show ?thesis
    using rotate_phi_closed_range [of "[(Num 1, Num 5), (Num 0, NInf), (Num 0, Num 1)]"
        constructed 0]
    by simp
qed

text \<open>The same for the radius and \<open>ZoomCamera\<close>.\<close>

lemma ZoomCamera_radius_number:
  assumes "m_cameraRadius (snd s) = Num x" and "delta \<noteq> NaN"
  shows "\<exists>y. m_cameraRadius (snd (VolumeRenderer_ZoomCamera delta s)) = Num y \<and>
           1 / 2 \<le> y \<and> y \<le> 10"
  unfolding ZoomCamera_radius assms(1)
  by (rule clamp_number [OF _ number_minus_not_NaN [OF assms(2)]]) simp

lemma zoom_calls_radius_number:
  assumes "\<forall>d \<in> set ds. d \<noteq> NaN" and "m_cameraRadius (snd s) = Num x"
  shows "\<exists>y. m_cameraRadius (snd (zoom_calls ds s)) = Num y"
  using assms
proof (induction ds arbitrary: s x)
  case Nil
  then show ?case by (simp add: zoom_calls_def)
next
  case (Cons d ds)
  have "d \<noteq> NaN" using Cons.prems(1) by simp
  from ZoomCamera_radius_number [OF Cons.prems(2) this]
  obtain y where "m_cameraRadius (snd (VolumeRenderer_ZoomCamera d s)) = Num y"
    by blast
  moreover have "\<forall>d \<in> set ds. d \<noteq> NaN" using Cons.prems(1) by simp
  ultimately have "\<exists>y. m_cameraRadius (snd (zoom_calls ds (VolumeRenderer_ZoomCamera d s))) = Num y"
    using Cons.IH by blast
  then show ?case by (simp add: zoom_calls_def)
qed

text \<open>
  Claim C6, as stated: after any sequence of \<open>ZoomCamera\<close> calls with arbitrary deltas the
  radius lies in the interval from 0.5 to 10. The clamp is \<open>max(0.5, min(10, radius))\<close>
  with the comparison macros, and every comparison with NaN is false: one call with a
  NaN delta on a new renderer leaves the radius NaN, which is neither at least 0.5 nor
  at most 10, and a later call with the delta 1 leaves it NaN still.
\<close>

theorem zoom_nan_passes_clamp:
  "m_cameraRadius (snd (zoom_calls [NaN] constructed)) = NaN \<and>
   \<not> Num (1 / 2) \<le> m_cameraRadius (snd (zoom_calls [NaN] constructed)) \<and>
   \<not> m_cameraRadius (snd (zoom_calls [NaN] constructed)) \<le> Num 10 \<and>
   m_cameraRadius (snd (zoom_calls [NaN, Num 1] constructed)) = NaN"
proof -
  have one: "m_cameraRadius (snd (zoom_calls [NaN] constructed)) = NaN"
    by (simp add: zoom_calls_def ZoomCamera_radius constructed_def VolumeRenderer_ctor_def
        minus_cfloat_def clamp_NaN)
  have two: "m_cameraRadius (snd (zoom_calls [NaN, Num 1] constructed)) = NaN"
    by (simp add: zoom_calls_def ZoomCamera_radius constructed_def VolumeRenderer_ctor_def
        minus_cfloat_def clamp_NaN)
  show ?thesis
    by (simp add: one two less_eq_cfloat_def)
qed

text \<open>
  Claim C6, amended: after any non-empty sequence of \<open>ZoomCamera\<close> calls in which no delta
  is NaN (infinite ones are allowed), from any renderer state whose radius is a number,
  the radius is a number in the interval from 0.5 to 10; it is the clamp of the
  requested value (the radius before the last call minus its delta), and the stored
  camera position is the one computed from that clamped radius.
\<close>

theorem zoom_radius_clamped:
  assumes "ds \<noteq> []" and "\<forall>d \<in> set ds. d \<noteq> NaN" and "m_cameraRadius (snd s) = Num x"
  shows "(let r = snd (zoom_calls ds s) in
            (\<exists>y. m_cameraRadius r = Num y \<and> 1 / 2 \<le> y \<and> y \<le> 10) \<and>
            m_cameraRadius r = max_macro (Num (1 / 2)) (min_macro (Num 10)
               (m_cameraRadius (snd (zoom_calls (butlast ds) s)) - last ds)) \<and>
            m_cameraPosition r = XMFLOAT3
              (f3x (m_focusPoint r) + m_cameraRadius r * cosf (m_cameraPhi r) * sinf (m_cameraTheta r))
              (f3y (m_focusPoint r) + m_cameraRadius r * sinf (m_cameraPhi r))
              (f3z (m_focusPoint r) + m_cameraRadius r * cosf (m_cameraPhi r) * cosf (m_cameraTheta r)))"
proof -
  obtain ds' d where ds: "ds = ds' @ [d]"
    using assms(1) by (cases ds rule: rev_cases) auto
  have last: "d \<noteq> NaN" and front: "\<forall>d \<in> set ds'. d \<noteq> NaN"
    using assms(2) by (simp_all add: ds)
  have step: "zoom_calls ds s = VolumeRenderer_ZoomCamera d (zoom_calls ds' s)"
    by (simp add: zoom_calls_def ds)
  obtain x' where "m_cameraRadius (snd (zoom_calls ds' s)) = Num x'"
    using zoom_calls_radius_number [OF front assms(3)] by blast
  from ZoomCamera_radius_number [OF this last]
  have range: "\<exists>y. m_cameraRadius (snd (zoom_calls ds s)) = Num y \<and> 1 / 2 \<le> y \<and> y \<le> 10"
    by (simp add: step)
  have raw: "m_cameraRadius (snd (zoom_calls ds s)) = max_macro (Num (1 / 2)) (min_macro (Num 10)
               (m_cameraRadius (snd (zoom_calls (butlast ds) s)) - last ds))"
    by (simp add: step ZoomCamera_radius) (simp add: ds)
  have pos: "m_cameraPosition (snd (zoom_calls ds s)) =
     (let r = snd (zoom_calls ds s) in XMFLOAT3
        (f3x (m_focusPoint r) + m_cameraRadius r * cosf (m_cameraPhi r) * sinf (m_cameraTheta r))
        (f3y (m_focusPoint r) + m_cameraRadius r * sinf (m_cameraPhi r))
        (f3z (m_focusPoint r) + m_cameraRadius r * cosf (m_cameraPhi r) * cosf (m_cameraTheta r)))"
    unfolding step by (rule ZoomCamera_position)
  show ?thesis
    unfolding Let_def using range raw pos [unfolded Let_def] by blast
qed

text \<open>Zooming out by 100 and then in by -3 on a new renderer: the first call stops at
  radius 0.5, the second ends at 3.5, and the camera stands at distance 3.5.\<close>

theorem zoom_radius_clamped_witness:
  "[Num 100, Num (- 3)] \<noteq> [] \<and>
   m_cameraRadius (snd (zoom_calls [Num 100] constructed)) = Num (1 / 2) \<and>
   m_cameraRadius (snd (zoom_calls [Num 100, Num (- 3)] constructed)) = Num (7 / 2) \<and>
   m_cameraPosition (snd (zoom_calls [Num 100, Num (- 3)] constructed)) =
     XMFLOAT3 (Num 0) (Num 0) (Num (7 / 2))"
proof -
  have "\<forall>d \<in> set [Num 100, Num (- 3)]. d \<noteq> NaN"
    by simp
  moreover have "m_cameraRadius (snd constructed) = Num 2"
    by (simp add: constructed_def VolumeRenderer_ctor_def)
  ultimately show ?thesis
    using zoom_radius_clamped [of "[Num 100, Num (- 3)]" constructed 2] pi_ge_two
    by (simp add: zoom_calls_def Let_def ZoomCamera_snd VolumeRenderer_RotateCamera_def
        constructed_def VolumeRenderer_ctor_def max_macro_def min_macro_def XM_PIDIV2_def
        minus_cfloat_def)
qed

text \<open>Once \<open>RotateCamera\<close> has run, the stored position agrees with the angles, and a
  further \<open>RotateCamera(0, 0)\<close> leaves it where it is.\<close>

lemma rotate_zero_twice:
  "m_cameraPosition (snd (VolumeRenderer_RotateCamera (Num 0) (Num 0)
      (VolumeRenderer_RotateCamera (Num 0) (Num 0) s))) =
   m_cameraPosition (snd (VolumeRenderer_RotateCamera (Num 0) (Num 0) s))"
proof -
  obtain lg r where s: "s = (lg, r)" by (cases s)
  have again: "max_macro (Num (1 / 10 - pi / 2)) (min_macro (Num (pi / 2 - 1 / 10))
                 (max_macro (Num (1 / 10 - pi / 2)) (min_macro (Num (pi / 2 - 1 / 10)) v))) =
               max_macro (Num (1 / 10 - pi / 2)) (min_macro (Num (pi / 2 - 1 / 10)) v)" for v
    using clamp_macro_idem [OF phi_bounds_ordered, of v] by simp
  show ?thesis
    by (simp add: s VolumeRenderer_RotateCamera_def Let_def phi_lower phi_upper
        plus_zero_cfloat again)
qed

text \<open>
  Claim C8 says that \<open>RotateCamera(0, 0)\<close> leaves the camera position as it was, in every
  camera state. On a new renderer it does not: the constructor stores the position
  \<open>(0, 0, -2)\<close> next to \<open>theta = 0\<close>, \<open>phi = 0\<close>, \<open>radius = 2\<close>, and the formula of
  \<open>RotateCamera\<close> gives \<open>(0, 0, 2)\<close> for these angles.
\<close>

theorem rotate_zero_moves_initial_camera:
  "m_cameraPosition (snd constructed) = XMFLOAT3 (Num 0) (Num 0) (Num (- 2)) \<and>
   m_cameraPosition (snd (VolumeRenderer_RotateCamera (Num 0) (Num 0) constructed)) =
     XMFLOAT3 (Num 0) (Num 0) (Num 2)"
  using pi_ge_two
  by (simp add: VolumeRenderer_RotateCamera_def constructed_def VolumeRenderer_ctor_def Let_def
        max_macro_def min_macro_def XM_PIDIV2_def minus_cfloat_def)

text \<open>
  Claim C9: \<open>ResetCamera\<close>, after any sequence of \<open>RotateCamera\<close> and \<open>ZoomCamera\<close> calls from
  any state, leaves \<open>theta = 0\<close>, \<open>phi = 0\<close>, \<open>radius = 2\<close> and the position \<open>(0, 0, -2)\<close>
  (and the focus at the origin, the up vector \<open>(0, 1, 0)\<close>): the values are assigned, not
  computed.
\<close>

theorem reset_restores_literals:
  "(let r = snd (VolumeRenderer_ResetCamera (fold do_camera_call cs s)) in
      m_cameraTheta r = Num 0 \<and> m_cameraPhi r = Num 0 \<and> m_cameraRadius r = Num 2 \<and>
      m_cameraPosition r = XMFLOAT3 (Num 0) (Num 0) (Num (- 2)) \<and>
      m_focusPoint r = XMFLOAT3 (Num 0) (Num 0) (Num 0) \<and>
      m_upVector r = XMFLOAT3 (Num 0) (Num 1) (Num 0))"
proof -
  obtain lg r where "fold do_camera_call cs s = (lg, r)"
    by (cases "fold do_camera_call cs s")
  then show ?thesis
    by (simp add: VolumeRenderer_ResetCamera_def Let_def)
qed

subsection \<open>Logging and start-up\<close>

lemma g_logCallback_Log [simp]: "g_logCallback (Log message severity lg) = g_logCallback lg"
  by (simp add: Log_def)

lemma delivered_Log:
  "delivered (Log message severity lg) =
     (if g_logCallback lg then delivered lg @ [(message, severity)] else delivered lg)"
  by (simp add: Log_def)

lemmas create_defs =
  VolumeRenderer_CreateDeviceAndSwapChain_def VolumeRenderer_CreateRenderTargetView_def
  VolumeRenderer_CreateDepthStencilView_def VolumeRenderer_SetupViewport_def
  VolumeRenderer_CreateShaders_def VolumeRenderer_CreateConstantBuffers_def
  VolumeRenderer_CreateSamplers_def shader_compile_failed_def

lemma vector_resize_empty: "vector_resize n v [] = replicate n v"
  by (simp add: vector_resize_def)

lemma vector_resize_same: "length xs = n \<Longrightarrow> vector_resize n v xs = xs"
  by (simp add: vector_resize_def)

lemma started_renderer:
  "\<exists>lg r. started = (lg, Some r) \<and> g_logCallback lg \<and> m_device r \<and> m_context r \<and> m_swapChain r \<and>
      m_materials r = replicate 256 (XMFLOAT4 (Num 0) (Num 0) (Num 0) (Num 0)) \<and>
      m_materialBuffer r = Some (replicate 256 (XMFLOAT4 (Num 0) (Num 0) (Num 0) (Num 0))) \<and>
      m_volumeWidth r = 0 \<and> m_volumeHeight r = 0 \<and> m_volumeDepth r = 0 \<and> m_voxelSize r = Num 1 \<and>
      m_labelTexture r = None \<and> m_volumeTexture r = None \<and>
      m_volumeSRV r = None \<and> m_labelSRV r = None \<and>
      m_constantBuffer r \<and> m_materialSRV r \<and> m_volumeSampler r"
  by (simp add: started_def Initialize_def VolumeRenderer_Initialize_def VolumeRenderer_ctor_def
      create_defs d3d_all_ok_def listening_def vector_resize_empty vector_resize_same)

lemma failed_start_renderer:
  "\<exists>lg r. failed_start = (lg, Some r) \<and> g_logCallback lg \<and> \<not> m_device r \<and> \<not> m_context r \<and>
      m_materials r = [] \<and> m_cameraTheta r = Num 0 \<and>
      fst (Initialize no_device True 800 600 (listening, None)) = False"
  by (simp add: failed_start_def Initialize_def VolumeRenderer_Initialize_def VolumeRenderer_ctor_def
      create_defs no_device_def d3d_all_ok_def listening_def)

subsection \<open>The material table\<close>

lemma mask255: "(255 :: 32 word) = mask 8"
  by (simp add: mask_eq_exp_minus_1)

lemma signed_shift_low_byte:
  "n \<le> 24 \<Longrightarrow> signed_drop_bit n (w :: 32 word) AND 0xFF = take_bit 8 (drop_bit n w)"
  unfolding mask255 by (rule bit_word_eqI) (auto simp add: bit_simps)

lemma channel_bits:
  assumes "n \<le> 24"
  shows "unat (signed_drop_bit n (w :: 32 word) AND 0xFF) = argb_bits w n"
proof -
  have "unat (take_bit 8 (drop_bit n w)) = take_bit 8 (drop_bit n (unat w))"
    by (simp add: unsigned_take_bit_eq unat_drop_bit_eq)
  also have "\<dots> = (unat w div 2 ^ n) mod 256"
    by (simp add: take_bit_eq_mod drop_bit_eq_div)
  finally show ?thesis using assms by (simp add: signed_shift_low_byte argb_bits_def)
qed

lemma low_bits: "unat ((w :: 32 word) AND 0xFF) = argb_bits w 0"
proof -
  have "unat (w AND 0xFF) = unat (take_bit 8 w)"
    unfolding mask255 by (simp add: take_bit_eq_mask)
  also have "\<dots> = take_bit 8 (unat w)"
    by (simp add: unsigned_take_bit_eq)
  also have "\<dots> = unat w mod 256"
    by (simp add: take_bit_eq_mod)
  finally show ?thesis by (simp add: argb_bits_def)
qed

lemma spec_material_code:
  "XMFLOAT4 (Num (real (unat (signed_drop_bit 16 argb AND 0xFF)) / 255))
            (Num (real (unat (signed_drop_bit 8 argb AND 0xFF)) / 255))
            (Num (real (unat (argb AND 0xFF)) / 255))
            (Num (real (unat (signed_drop_bit 24 argb AND 0xFF)) / 255)) = spec_material argb"
proof -
  have red: "unat (signed_drop_bit 16 argb AND 0xFF) = argb_bits argb 16"
    and green: "unat (signed_drop_bit 8 argb AND 0xFF) = argb_bits argb 8"
    and alpha: "unat (signed_drop_bit 24 argb AND 0xFF) = argb_bits argb 24"
    by (simp_all only: channel_bits)
  have blue: "unat (argb AND 0xFF) = argb_bits argb 0"
    by (rule low_bits)
  show ?thesis
    by (simp only: spec_material_def red green blue alpha)
qed

lemma material_loop_done:
  "\<not> int i < count \<Longrightarrow> material_loop colors count i ms = Inr ms"
  by (subst material_loop.simps) simp

lemma material_loop_unfold:
  "int i < count \<Longrightarrow>
     material_loop colors count i ms =
       (if length colors \<le> i then Inl read_past_end
        else if length ms \<le> i then Inl write_past_end
        else material_loop colors count (Suc i) (ms[i := spec_material (colors ! i)]))"
  by (subst material_loop.simps) (simp only: Let_def spec_material_code if_True Suc_eq_plus1)

lemma material_loop_ok:
  assumes "count \<le> int (length colors)" "count \<le> int (length ms)"
  shows "\<exists>ms'. material_loop colors count i ms = Inr ms' \<and> length ms' = length ms \<and>
           (\<forall>j. ms' ! j = (if i \<le> j \<and> int j < count then spec_material (colors ! j) else ms ! j))"
  using assms
proof (induction "nat count - i" arbitrary: i ms)
  case 0
  then have "\<not> int i < count" by linarith
  then show ?case by (auto simp add: material_loop_done)
next
  case (Suc k)
  then have lt: "int i < count" by linarith
  let ?ms = "ms[i := spec_material (colors ! i)]"
  have inb: "i < length colors" "i < length ms" using lt Suc.prems by auto
  have k: "k = nat count - Suc i" using Suc.hyps(2) by linarith
  have "count \<le> int (length ?ms)" using Suc.prems by simp
  from Suc.hyps(1) [OF k Suc.prems(1) this]
  obtain ms' where ms': "material_loop colors count (Suc i) ?ms = Inr ms'"
      "length ms' = length ?ms"
      "\<forall>j. ms' ! j = (if Suc i \<le> j \<and> int j < count then spec_material (colors ! j) else ?ms ! j)"
    by blast
  have "ms' ! j = (if i \<le> j \<and> int j < count then spec_material (colors ! j) else ms ! j)" for j
  proof (cases "j = i")
    case True
    then show ?thesis using ms'(3) lt inb by simp
  next
    case False
    then show ?thesis using ms'(3) by (auto simp: nth_list_update)
  qed
  then show ?case
    using material_loop_unfold [OF lt, of colors ms] inb ms'(1,2) by simp
qed

lemma material_loop_take:
  "material_loop colors count i ms = material_loop (take (nat count) colors) count i ms"
proof (induction "nat count - i" arbitrary: i ms)
  case 0
  then have "\<not> int i < count" by linarith
  then show ?case by (simp add: material_loop_done)
next
  case (Suc k)
  then have lt: "int i < count" by linarith
  then have i: "i < nat count" by linarith
  have k: "k = nat count - Suc i" using Suc.hyps(2) by linarith
  have "length (take (nat count) colors) \<le> i \<longleftrightarrow> length colors \<le> i"
    using i by auto
  moreover have "take (nat count) colors ! i = colors ! i"
    using i by simp
  ultimately show ?case
    by (simp only: material_loop_unfold [OF lt] Suc.hyps(1) [OF k, symmetric])
qed

lemma clamp_count_high: "256 < count \<Longrightarrow> min_macro 256 (max_macro 1 count) = (256 :: int)"
  by (simp add: min_macro_def max_macro_def)

text \<open>
  Claim C7: for a count between 1 and 256, an array with at least \<open>count\<close> colours and a
  table with at least \<open>count\<close> entries, \<open>UpdateMaterials\<close> returns normally and entry \<open>i\<close>
  of the table, for every \<open>i\<close> below \<open>count\<close>, is the decomposition of colour \<open>i\<close> as the
  spec words it: red from bits 16 to 23, green from bits 8 to 15, blue from bits 0 to 7,
  alpha from bits 24 to 31, each divided by 255.
\<close>

theorem update_materials_decodes_argb:
  assumes "0 < count" "count \<le> 256" "count \<le> int (length cs)"
    "count \<le> int (length (m_materials r))" "int i < count"
  shows "\<exists>lg' r'. UpdateMaterials env (Some cs) count (lg, Some r) = Inr (lg', Some r') \<and>
           m_materials r' ! i = spec_material (cs ! i) \<and>
           length (m_materials r') = length (m_materials r)"
proof -
  obtain ms' where ms': "material_loop cs count 0 (m_materials r) = Inr ms'"
      "length ms' = length (m_materials r)"
      "\<forall>j. ms' ! j = (if 0 \<le> j \<and> int j < count then spec_material (cs ! j) else m_materials r ! j)"
    using material_loop_ok [OF assms(3,4), of 0] by blast
  have "ms' ! i = spec_material (cs ! i)"
    using ms'(3) assms(5) by simp
  then show ?thesis
    using assms(1,2) ms'(1,2)
    by (simp add: UpdateMaterials_def VolumeRenderer_UpdateMaterials_def Let_def)
qed

lemma spec_material_red: "spec_material 0xFFFF0000 = XMFLOAT4 (Num 1) (Num 0) (Num 0) (Num 1)"
  by (simp add: spec_material_def argb_bits_def)

lemma spec_material_green: "spec_material 0xFF00FF00 = XMFLOAT4 (Num 0) (Num 1) (Num 0) (Num 1)"
  by (simp add: spec_material_def argb_bits_def)

text \<open>The spec's example, after a successful \<open>Initialize\<close>:
  \<open>UpdateMaterials([0xFFFF0000, 0xFF00FF00], 2)\<close> makes entry 0 equal to \<open>(1, 0, 0, 1)\<close>
  and entry 1 equal to \<open>(0, 1, 0, 1)\<close>.\<close>

theorem update_materials_example:
  "\<exists>lg r. UpdateMaterials d3d_all_ok (Some [0xFFFF0000, 0xFF00FF00]) 2 started = Inr (lg, Some r) \<and>
      m_materials r ! 0 = XMFLOAT4 (Num 1) (Num 0) (Num 0) (Num 1) \<and>
      m_materials r ! 1 = XMFLOAT4 (Num 0) (Num 1) (Num 0) (Num 1)"
proof -
  obtain lg r where s: "started = (lg, Some r)" "m_materials r = replicate 256 (XMFLOAT4 (Num 0) (Num 0) (Num 0) (Num 0))"
    using started_renderer by blast
  have pre: "(0::int) < 2" "(2::int) \<le> 256" "2 \<le> int (length [0xFFFF0000, 0xFF00FF00 :: 32 word])"
    "2 \<le> int (length (m_materials r))" "int 0 < 2" "int 1 < 2"
    by (simp_all add: s(2))
  from update_materials_decodes_argb [OF pre(1-5), of d3d_all_ok lg]
    update_materials_decodes_argb [OF pre(1-4) pre(6), of d3d_all_ok lg]
  show ?thesis
    by (auto simp add: s(1) spec_material_red spec_material_green)
qed

text \<open>
  Claim C3: the entry point \<open>UpdateMaterials\<close> with a count above 256 ends as it does with
  the count 256: the same fault or the same renderer (material table, buffer on the
  device and all the rest; the log alone differs, by the warning about the count); it
  reads the first 256 colours only; and with a count of 0 or less it leaves the renderer
  as it was.
\<close>

theorem update_materials_count_clamp:
  "(256 < count \<longrightarrow>
      map_sum id snd (UpdateMaterials env colors count g) =
      map_sum id snd (UpdateMaterials env colors 256 g)) \<and>
   (256 < count \<longrightarrow>
      UpdateMaterials env (Some cs) count g = UpdateMaterials env (Some (take 256 cs)) count g) \<and>
   (count \<le> 0 \<longrightarrow> (\<exists>lg'. UpdateMaterials env colors count g = Inr (lg', snd g)))"
proof (intro conjI impI)
  assume c: "256 < count"
  show "map_sum id snd (UpdateMaterials env colors count g) =
        map_sum id snd (UpdateMaterials env colors 256 g)"
    using c
    by (cases g)
      (auto simp add: UpdateMaterials_def VolumeRenderer_UpdateMaterials_def Let_def
        clamp_count_high split: option.splits sum.splits)
  show "UpdateMaterials env (Some cs) count g = UpdateMaterials env (Some (take 256 cs)) count g"
    using c material_loop_take [of cs 256]
    by (cases g)
      (simp add: UpdateMaterials_def VolumeRenderer_UpdateMaterials_def Let_def
        clamp_count_high split: option.splits)
next
  assume "count \<le> 0"
  then show "\<exists>lg'. UpdateMaterials env colors count g = Inr (lg', snd g)"
    by (cases g) (auto simp add: UpdateMaterials_def Let_def split: option.splits)
qed

text \<open>A count of 300 against a count of 256 on an array of 300 colours, and a count of
  -3, after a successful \<open>Initialize\<close>.\<close>

theorem update_materials_count_clamp_witness:
  "(256 :: int) < 300 \<and> (- 3 :: int) \<le> 0 \<and>
   map_sum id snd (UpdateMaterials d3d_all_ok (Some (replicate 300 0xFF0000FF)) 300 started) =
   map_sum id snd (UpdateMaterials d3d_all_ok (Some (replicate 300 0xFF0000FF)) 256 started) \<and>
   UpdateMaterials d3d_all_ok (Some (replicate 300 0xFF0000FF)) 300 started =
   UpdateMaterials d3d_all_ok (Some (take 256 (replicate 300 0xFF0000FF))) 300 started \<and>
   (\<exists>lg'. UpdateMaterials d3d_all_ok (Some [0xFF0000FF]) (- 3) started = Inr (lg', snd started))"
proof -
  have "(256 :: int) < 300" and "(- 3 :: int) \<le> 0"
    by simp_all
  with update_materials_count_clamp [of 300 d3d_all_ok "Some (replicate 300 0xFF0000FF)" started
      "replicate 300 0xFF0000FF"]
    update_materials_count_clamp [of "- 3" d3d_all_ok "Some [0xFF0000FF]" started]
  show ?thesis by blast
qed

subsection \<open>Loading volumes and labels\<close>

lemma CreateVolumeTexture_frame:
  "VolumeRenderer_CreateVolumeTexture env data (lg, r) = (result, lg', r') \<Longrightarrow>
     m_volumeWidth r' = m_volumeWidth r \<and> m_volumeHeight r' = m_volumeHeight r \<and>
     m_volumeDepth r' = m_volumeDepth r \<and> m_voxelSize r' = m_voxelSize r"
  by (auto simp add: VolumeRenderer_CreateVolumeTexture_def Let_def split: if_splits option.splits)

lemma VolumeRenderer_LoadVolumeData_dimensions:
  assumes "VolumeRenderer_LoadVolumeData env data width height depth voxelSize (lg, r) = (result, lg', r')"
  shows "if data = None \<or> width \<le> 0 \<or> height \<le> 0 \<or> depth \<le> 0 then \<not> result \<and> r' = r
         else m_volumeWidth r' = width \<and> m_volumeHeight r' = height \<and>
              m_volumeDepth r' = depth \<and> m_voxelSize r' = voxelSize"
proof (cases "data = None \<or> width \<le> 0 \<or> height \<le> 0 \<or> depth \<le> 0")
  case True
  then show ?thesis
    using assms by (auto simp add: VolumeRenderer_LoadVolumeData_def Let_def split: if_splits)
next
  case False
  then have args: "data \<noteq> None" "\<not> width \<le> 0" "\<not> height \<le> 0" "\<not> depth \<le> 0"
    by auto
  let ?r = "r\<lparr>m_volumeWidth := width, m_volumeHeight := height, m_volumeDepth := depth,
               m_voxelSize := voxelSize\<rparr>"
  let ?lg = "Log ''LoadVolumeData: %dx%dx%d, voxel size: %f'' LOG_INFO lg"
  obtain res lg1 r1 where c: "VolumeRenderer_CreateVolumeTexture env data (?lg, ?r) = (res, lg1, r1)"
    by (cases "VolumeRenderer_CreateVolumeTexture env data (?lg, ?r)") auto
  have "r' = r1"
    using assms c by (simp add: VolumeRenderer_LoadVolumeData_def Let_def args)
  then show ?thesis
    using CreateVolumeTexture_frame [OF c] by (simp add: args)
qed

text \<open>
  Claim C1, as stated: whenever \<open>LoadVolumeData\<close> returns failure, the stored width, height,
  depth and voxel size are what they were before the call. The code stores the four
  arguments before it creates the texture: after a successful \<open>Initialize\<close>, a load of a
  2 by 2 by 2 volume with voxel size 0.5 whose texture creation fails returns failure
  and leaves the stored width 2 (it was 0) and the stored voxel size 0.5 (it was 1).
\<close>

theorem load_volume_failure_overwrites_dimensions:
  "fst (LoadVolumeData no_texture (Some (replicate 8 0)) 2 2 2 (Num (1 / 2)) started) = False \<and>
   map_option m_volumeWidth (snd started) = Some 0 \<and>
   map_option m_volumeWidth
     (snd (snd (LoadVolumeData no_texture (Some (replicate 8 0)) 2 2 2 (Num (1 / 2)) started))) = Some 2 \<and>
   map_option m_voxelSize (snd started) = Some (Num 1) \<and>
   map_option m_voxelSize
     (snd (snd (LoadVolumeData no_texture (Some (replicate 8 0)) 2 2 2 (Num (1 / 2)) started))) = Some (Num (1 / 2))"
proof -
  obtain lg r where s: "started = (lg, Some r)" "m_device r"
      "m_volumeWidth r = 0" "m_voxelSize r = Num 1"
    using started_renderer by blast
  show ?thesis
    by (simp add: s LoadVolumeData_def VolumeRenderer_LoadVolumeData_def
        VolumeRenderer_CreateVolumeTexture_def no_texture_def d3d_all_ok_def Let_def)
qed

text \<open>
  Claim C1, amended: when \<open>LoadVolumeData\<close> returns failure because the data pointer is
  null or a dimension is not positive, the renderer (its stored width, height, depth and
  voxel size among the rest) is what it was before the call; when it returns failure for
  any other reason (the device is null, or the texture or its view cannot be created),
  the stored width, height, depth and voxel size are the arguments of the failed call.
\<close>

theorem load_volume_failure_state:
  assumes "LoadVolumeData env data width height depth voxelSize (lg, Some r) = (False, lg', g')"
  shows "\<exists>r'. g' = Some r' \<and>
           (if data = None \<or> width \<le> 0 \<or> height \<le> 0 \<or> depth \<le> 0 then r' = r
            else m_volumeWidth r' = width \<and> m_volumeHeight r' = height \<and>
                 m_volumeDepth r' = depth \<and> m_voxelSize r' = voxelSize)"
proof (cases "data = None \<or> width \<le> 0 \<or> height \<le> 0 \<or> depth \<le> 0")
  case True
  then show ?thesis
    using assms by (auto simp add: LoadVolumeData_def Let_def split: if_splits)
next
  case False
  then have args: "data \<noteq> None" "\<not> width \<le> 0" "\<not> height \<le> 0" "\<not> depth \<le> 0"
    by auto
  let ?lg = "Log ''Loading volume data: %dx%dx%d with voxel size: %f'' LOG_INFO lg"
  obtain res lg1 r1 where c:
    "VolumeRenderer_LoadVolumeData env data width height depth voxelSize (?lg, r) = (res, lg1, r1)"
    by (cases "VolumeRenderer_LoadVolumeData env data width height depth voxelSize (?lg, r)") auto
  have "g' = Some r1"
    using assms c by (simp add: LoadVolumeData_def Let_def args)
  then show ?thesis
    using VolumeRenderer_LoadVolumeData_dimensions [OF c] by (simp add: args)
qed

text \<open>A load with a null pointer, and a load whose texture creation fails, after a
  successful \<open>Initialize\<close>.\<close>

theorem load_volume_failure_state_witness:
  "snd (snd (LoadVolumeData d3d_all_ok None 2 2 2 (Num (1 / 2)) started)) = snd started \<and>
   map_option m_volumeDepth
     (snd (snd (LoadVolumeData no_texture (Some (replicate 8 0)) 2 2 2 (Num (1 / 2)) started))) = Some 2"
proof -
  obtain lg r where s: "started = (lg, Some r)" "m_device r"
    using started_renderer by blast
  let ?null = "LoadVolumeData d3d_all_ok None 2 2 2 (Num (1 / 2)) (lg, Some r)"
  let ?fail = "LoadVolumeData no_texture (Some (replicate 8 0)) 2 2 2 (Num (1 / 2)) (lg, Some r)"
  have "fst ?null = False"
    by (simp add: LoadVolumeData_def Let_def)
  then have n: "?null = (False, fst (snd ?null), snd (snd ?null))"
    by (cases ?null) simp
  have "fst ?fail = False"
    by (simp add: s LoadVolumeData_def VolumeRenderer_LoadVolumeData_def
        VolumeRenderer_CreateVolumeTexture_def no_texture_def d3d_all_ok_def Let_def)
  then have f: "?fail = (False, fst (snd ?fail), snd (snd ?fail))"
    by (cases ?fail) simp
  from load_volume_failure_state [OF n] load_volume_failure_state [OF f]
  show ?thesis
    by (auto simp add: s(1))
qed

lemma CreateLabelTexture_result:
  assumes "VolumeRenderer_CreateLabelTexture env data (lg, r) = (result, lg', r')"
  shows "m_volumeWidth r' = m_volumeWidth r \<and> m_volumeHeight r' = m_volumeHeight r \<and>
         m_volumeDepth r' = m_volumeDepth r \<and>
         (result \<longrightarrow> (\<exists>tex. m_labelTexture r' = Some tex \<and> m_labelSRV r' = Some tex \<and>
            Width tex = m_volumeWidth r \<and> Height tex = m_volumeHeight r \<and>
            Depth tex = m_volumeDepth r)) \<and>
         (\<forall>tex. m_labelTexture r' = Some tex \<longrightarrow> m_labelTexture r = Some tex \<or>
            Width tex = m_volumeWidth r \<and> Height tex = m_volumeHeight r \<and>
            Depth tex = m_volumeDepth r) \<and>
         (m_volumeWidth r \<le> 0 \<or> m_volumeHeight r \<le> 0 \<or> m_volumeDepth r \<le> 0 \<longrightarrow>
            \<not> result \<and> r' = r)"
  using assms
  by (auto simp add: VolumeRenderer_CreateLabelTexture_def Let_def split: if_splits option.splits)

lemma VolumeRenderer_LoadLabelData_result:
  assumes "VolumeRenderer_LoadLabelData env data width height depth (lg, r) = (result, lg', r')"
  shows "m_volumeWidth r' = m_volumeWidth r \<and> m_volumeHeight r' = m_volumeHeight r \<and>
         m_volumeDepth r' = m_volumeDepth r \<and>
         (result \<longrightarrow> (\<exists>tex. m_labelTexture r' = Some tex \<and> m_labelSRV r' = Some tex \<and>
            Width tex = m_volumeWidth r \<and> Height tex = m_volumeHeight r \<and>
            Depth tex = m_volumeDepth r)) \<and>
         (\<forall>tex. m_labelTexture r' = Some tex \<longrightarrow> m_labelTexture r = Some tex \<or>
            Width tex = m_volumeWidth r \<and> Height tex = m_volumeHeight r \<and>
            Depth tex = m_volumeDepth r) \<and>
         (m_volumeWidth r \<le> 0 \<or> m_volumeHeight r \<le> 0 \<or> m_volumeDepth r \<le> 0 \<longrightarrow>
            \<not> result \<and> r' = r)"
proof (cases "data = None \<or> width \<le> 0 \<or> height \<le> 0 \<or> depth \<le> 0")
  case True
  then have "\<not> result \<and> r' = r"
    using assms by (auto simp add: VolumeRenderer_LoadLabelData_def Let_def split: if_splits)
  then show ?thesis by simp
next
  case False
  then have args: "data \<noteq> None" "\<not> width \<le> 0" "\<not> height \<le> 0" "\<not> depth \<le> 0"
    by auto
  let ?lg = "Log ''LoadLabelData: %dx%dx%d'' LOG_INFO lg"
  obtain res lg1 r1 where c: "VolumeRenderer_CreateLabelTexture env data (?lg, r) = (res, lg1, r1)"
    by (cases "VolumeRenderer_CreateLabelTexture env data (?lg, r)") auto
  have "r' = r1 \<and> result = res"
    using assms c by (auto simp add: VolumeRenderer_LoadLabelData_def Let_def args)
  then show ?thesis
    using CreateLabelTexture_result [OF c] by simp
qed

lemma LoadVolumeData_validated:
  assumes "LoadVolumeData env data width height depth voxelSize s = (loaded, lg', Some r')"
    and "data \<noteq> None" and "0 < width" and "0 < height" and "0 < depth"
  shows "m_volumeWidth r' = width \<and> m_volumeHeight r' = height \<and> m_volumeDepth r' = depth"
proof -
  obtain lg g where s: "s = (lg, g)" by (cases s)
  from assms(1) obtain r where g: "g = Some r"
    by (cases g) (auto simp add: s LoadVolumeData_def)
  have args: "data \<noteq> None" "\<not> width \<le> 0" "\<not> height \<le> 0" "\<not> depth \<le> 0"
    using assms(2-5) by auto
  let ?lg = "Log ''Loading volume data: %dx%dx%d with voxel size: %f'' LOG_INFO lg"
  obtain res lg1 r1 where c:
    "VolumeRenderer_LoadVolumeData env data width height depth voxelSize (?lg, r) = (res, lg1, r1)"
    by (cases "VolumeRenderer_LoadVolumeData env data width height depth voxelSize (?lg, r)") auto
  have "r' = r1"
    using assms(1) c by (simp add: s g LoadVolumeData_def Let_def args)
  then show ?thesis
    using VolumeRenderer_LoadVolumeData_dimensions [OF c] by (simp add: args)
qed

lemma volume_loaded_renderer:
  "\<exists>lg r tex. LoadVolumeData d3d_all_ok (Some (replicate 24 0)) 2 3 4 (Num 1) started =
        (True, lg, Some r) \<and>
     volume_loaded = (lg, Some r) \<and> m_device r \<and> m_labelTexture r = None \<and>
     m_volumeSRV r = Some tex \<and> Width tex = 2 \<and> Height tex = 3 \<and> Depth tex = 4"
proof -
  obtain lg r where s: "started = (lg, Some r)" "m_device r" "m_labelTexture r = None"
    using started_renderer by blast
  show ?thesis
    by (simp add: volume_loaded_def s LoadVolumeData_def VolumeRenderer_LoadVolumeData_def
        VolumeRenderer_CreateVolumeTexture_def d3d_all_ok_def Let_def)
qed

lemma failed_volume_renderer:
  "\<exists>lg r. LoadVolumeData no_texture (Some (replicate 8 0)) 2 2 2 (Num 1) started =
        (False, lg, Some r) \<and>
     failed_volume = (lg, Some r) \<and> m_device r \<and> m_volumeTexture r = None \<and>
     m_volumeWidth r = 2 \<and> m_volumeHeight r = 2 \<and> m_volumeDepth r = 2"
proof -
  obtain lg r where s: "started = (lg, Some r)" "m_device r"
    using started_renderer by blast
  show ?thesis
    by (simp add: failed_volume_def s LoadVolumeData_def VolumeRenderer_LoadVolumeData_def
        VolumeRenderer_CreateVolumeTexture_def no_texture_def d3d_all_ok_def Let_def)
qed

lemma failed_reload_renderer:
  "\<exists>lg r tex. LoadVolumeData no_texture (Some (replicate 8 0)) 2 2 2 (Num 1) volume_loaded =
        (False, lg, Some r) \<and>
     failed_reload = (lg, Some r) \<and> m_device r \<and>
     m_volumeSRV r = Some tex \<and> Width tex = 2 \<and> Height tex = 3 \<and> Depth tex = 4 \<and>
     m_volumeWidth r = 2 \<and> m_volumeHeight r = 2 \<and> m_volumeDepth r = 2"
proof -
  obtain lg r tex where s: "volume_loaded = (lg, Some r)" "m_device r"
      "m_volumeSRV r = Some tex" "Width tex = 2" "Height tex = 3" "Depth tex = 4"
    using volume_loaded_renderer by blast
  show ?thesis
    by (simp add: failed_reload_def s LoadVolumeData_def VolumeRenderer_LoadVolumeData_def
        VolumeRenderer_CreateVolumeTexture_def no_texture_def d3d_all_ok_def Let_def)
qed

text \<open>
  Claim C10, as stated: the label texture has the dimensions of the most recently loaded
  volume, and \<open>LoadLabelData\<close> fails whenever no volume has been loaded successfully. The
  dimensions it uses are the stored ones, and \<open>LoadVolumeData\<close> stores its arguments also
  when it fails at the texture. After a first volume load of 2 by 2 by 2 that failed so,
  there is no volume texture and \<open>LoadLabelData\<close> succeeds. After a volume of 2 by 3 by 4
  was loaded and a reload of 2 by 2 by 2 failed so, the volume view in use is still the
  one of 2 by 3 by 4, and \<open>LoadLabelData\<close> creates a label texture of 2 by 2 by 2.
\<close>

theorem load_label_after_failed_volume_load:
  "fst (LoadVolumeData no_texture (Some (replicate 8 0)) 2 2 2 (Num 1) started) = False \<and>
   snd failed_volume \<noteq> None \<and>
   Option.bind (snd failed_volume) m_volumeTexture = None \<and>
   fst (LoadLabelData d3d_all_ok (Some (replicate 8 0)) 2 2 2 failed_volume) = True \<and>
   fst (LoadVolumeData no_texture (Some (replicate 8 0)) 2 2 2 (Num 1) volume_loaded) = False \<and>
   map_option Height (Option.bind (snd failed_reload) m_volumeSRV) = Some 3 \<and>
   map_option Depth (Option.bind (snd failed_reload) m_volumeSRV) = Some 4 \<and>
   fst (LoadLabelData d3d_all_ok (Some (replicate 210 0)) 5 6 7 failed_reload) = True \<and>
   map_option Height (Option.bind
     (snd (snd (LoadLabelData d3d_all_ok (Some (replicate 210 0)) 5 6 7 failed_reload)))
     m_labelTexture) = Some 2 \<and>
   map_option Depth (Option.bind
     (snd (snd (LoadLabelData d3d_all_ok (Some (replicate 210 0)) 5 6 7 failed_reload)))
     m_labelTexture) = Some 2"
proof -
  obtain lg1 r1 where first:
      "LoadVolumeData no_texture (Some (replicate 8 0)) 2 2 2 (Num 1) started = (False, lg1, Some r1)"
      "failed_volume = (lg1, Some r1)" "m_device r1" "m_volumeTexture r1 = None"
      "m_volumeWidth r1 = 2" "m_volumeHeight r1 = 2" "m_volumeDepth r1 = 2"
    using failed_volume_renderer by blast
  obtain lg2 r2 tex where again:
      "LoadVolumeData no_texture (Some (replicate 8 0)) 2 2 2 (Num 1) volume_loaded =
         (False, lg2, Some r2)"
      "failed_reload = (lg2, Some r2)" "m_device r2"
      "m_volumeSRV r2 = Some tex" "Height tex = 3" "Depth tex = 4"
      "m_volumeWidth r2 = 2" "m_volumeHeight r2 = 2" "m_volumeDepth r2 = 2"
    using failed_reload_renderer by blast
  show ?thesis
    by (simp add: first again LoadLabelData_def VolumeRenderer_LoadLabelData_def
        VolumeRenderer_CreateLabelTexture_def d3d_all_ok_def Let_def)
qed

text \<open>
  Claim C10, amended: \<open>LoadLabelData\<close> checks its data pointer, width, height and depth (a
  null pointer or a dimension that is not positive makes it fail and change nothing) and
  does nothing else with the three dimensions. It leaves the stored volume dimensions as
  they are; when it succeeds, the label texture and its view have the stored volume
  dimensions; any label texture held after the call is the one held before or has the
  stored volume dimensions; when a stored dimension is zero (as it is until a
  \<open>LoadVolumeData\<close> call passes its argument checks) or negative, the call fails and
  changes nothing, whatever its arguments; and when the call follows a \<open>LoadVolumeData\<close>
  call that passed its argument checks, whether that load succeeded or failed later, the
  dimensions of a label texture it creates are those given to that \<open>LoadVolumeData\<close>.
\<close>

theorem load_label_uses_stored_dimensions:
  assumes "LoadLabelData env data width height depth (lg, Some r) = (result, lg', g')"
  shows "\<exists>r'. g' = Some r' \<and>
      m_volumeWidth r' = m_volumeWidth r \<and> m_volumeHeight r' = m_volumeHeight r \<and>
      m_volumeDepth r' = m_volumeDepth r \<and>
      (data = None \<or> width \<le> 0 \<or> height \<le> 0 \<or> depth \<le> 0 \<longrightarrow> \<not> result \<and> r' = r) \<and>
      (result \<longrightarrow> (\<exists>tex. m_labelTexture r' = Some tex \<and> m_labelSRV r' = Some tex \<and>
         Width tex = m_volumeWidth r \<and> Height tex = m_volumeHeight r \<and>
         Depth tex = m_volumeDepth r)) \<and>
      (\<forall>tex. m_labelTexture r' = Some tex \<longrightarrow> m_labelTexture r = Some tex \<or>
         Width tex = m_volumeWidth r \<and> Height tex = m_volumeHeight r \<and>
         Depth tex = m_volumeDepth r) \<and>
      (m_volumeWidth r \<le> 0 \<or> m_volumeHeight r \<le> 0 \<or> m_volumeDepth r \<le> 0 \<longrightarrow>
         \<not> result \<and> r' = r) \<and>
      (\<forall>env0 vdata w0 h0 d0 voxelSize s0 loaded.
         LoadVolumeData env0 vdata w0 h0 d0 voxelSize s0 = (loaded, lg, Some r) \<and>
         vdata \<noteq> None \<and> 0 < w0 \<and> 0 < h0 \<and> 0 < d0 \<longrightarrow> result \<longrightarrow>
         (\<exists>tex. m_labelTexture r' = Some tex \<and> Width tex = w0 \<and> Height tex = h0 \<and>
            Depth tex = d0))"
proof -
  have "\<exists>r'. g' = Some r' \<and>
      m_volumeWidth r' = m_volumeWidth r \<and> m_volumeHeight r' = m_volumeHeight r \<and>
      m_volumeDepth r' = m_volumeDepth r \<and>
      (data = None \<or> width \<le> 0 \<or> height \<le> 0 \<or> depth \<le> 0 \<longrightarrow> \<not> result \<and> r' = r) \<and>
      (result \<longrightarrow> (\<exists>tex. m_labelTexture r' = Some tex \<and> m_labelSRV r' = Some tex \<and>
         Width tex = m_volumeWidth r \<and> Height tex = m_volumeHeight r \<and>
         Depth tex = m_volumeDepth r)) \<and>
      (\<forall>tex. m_labelTexture r' = Some tex \<longrightarrow> m_labelTexture r = Some tex \<or>
         Width tex = m_volumeWidth r \<and> Height tex = m_volumeHeight r \<and>
         Depth tex = m_volumeDepth r) \<and>
      (m_volumeWidth r \<le> 0 \<or> m_volumeHeight r \<le> 0 \<or> m_volumeDepth r \<le> 0 \<longrightarrow>
         \<not> result \<and> r' = r)"
  proof (cases "data = None \<or> width \<le> 0 \<or> height \<le> 0 \<or> depth \<le> 0")
    case True
    then have "\<not> result \<and> g' = Some r"
      using assms by (auto simp add: LoadLabelData_def Let_def split: if_splits)
    then show ?thesis by simp
  next
    case False
    then have args: "data \<noteq> None" "\<not> width \<le> 0" "\<not> height \<le> 0" "\<not> depth \<le> 0"
      by auto
    let ?lg = "Log ''Loading label data: %dx%dx%d'' LOG_INFO lg"
    obtain res lg1 r1 where c:
      "VolumeRenderer_LoadLabelData env data width height depth (?lg, r) = (res, lg1, r1)"
      by (cases "VolumeRenderer_LoadLabelData env data width height depth (?lg, r)") auto
    have "g' = Some r1 \<and> result = res"
      using assms c by (auto simp add: LoadLabelData_def Let_def args)
    then show ?thesis
      using VolumeRenderer_LoadLabelData_result [OF c] args by auto
  qed
  then obtain r' where r': "g' = Some r'"
      "m_volumeWidth r' = m_volumeWidth r" "m_volumeHeight r' = m_volumeHeight r"
      "m_volumeDepth r' = m_volumeDepth r"
      "data = None \<or> width \<le> 0 \<or> height \<le> 0 \<or> depth \<le> 0 \<longrightarrow> \<not> result \<and> r' = r"
      "result \<longrightarrow> (\<exists>tex. m_labelTexture r' = Some tex \<and> m_labelSRV r' = Some tex \<and>
         Width tex = m_volumeWidth r \<and> Height tex = m_volumeHeight r \<and>
         Depth tex = m_volumeDepth r)"
      "\<forall>tex. m_labelTexture r' = Some tex \<longrightarrow> m_labelTexture r = Some tex \<or>
         Width tex = m_volumeWidth r \<and> Height tex = m_volumeHeight r \<and>
         Depth tex = m_volumeDepth r"
      "m_volumeWidth r \<le> 0 \<or> m_volumeHeight r \<le> 0 \<or> m_volumeDepth r \<le> 0 \<longrightarrow>
         \<not> result \<and> r' = r"
    by blast
  have "\<exists>tex. m_labelTexture r' = Some tex \<and> Width tex = w0 \<and> Height tex = h0 \<and> Depth tex = d0"
    if "LoadVolumeData env0 vdata w0 h0 d0 voxelSize s0 = (loaded, lg, Some r) \<and>
         vdata \<noteq> None \<and> 0 < w0 \<and> 0 < h0 \<and> 0 < d0" and result
    for env0 vdata w0 h0 d0 voxelSize s0 loaded
  proof -
    have "m_volumeWidth r = w0 \<and> m_volumeHeight r = h0 \<and> m_volumeDepth r = d0"
      using that(1) LoadVolumeData_validated [of env0 vdata w0 h0 d0 voxelSize s0 loaded lg r]
      by blast
    then show ?thesis
      using r'(6) that(2) by auto
  qed
  with r' show ?thesis by blast
qed

text \<open>Labels announced as 5 by 6 by 7: before any volume is loaded the call fails; after
  a volume of 2 by 3 by 4 is loaded it succeeds with a label texture of 2 by 3 by 4; and
  labels announced with a width of 0 are refused.\<close>

theorem load_label_uses_stored_dimensions_witness:
  "fst (LoadLabelData d3d_all_ok (Some (replicate 210 0)) 5 6 7 started) = False \<and>
   fst (LoadLabelData d3d_all_ok (Some (replicate 210 0)) 0 6 7 volume_loaded) = False \<and>
   fst (LoadLabelData d3d_all_ok (Some (replicate 210 0)) 5 6 7 volume_loaded) = True \<and>
   (\<exists>lg r tex. snd (LoadLabelData d3d_all_ok (Some (replicate 210 0)) 5 6 7 volume_loaded) = (lg, Some r) \<and>
      m_labelTexture r = Some tex \<and> Width tex = 2 \<and> Height tex = 3 \<and> Depth tex = 4)"
proof -
  obtain lg0 r0 where s: "started = (lg0, Some r0)" "m_volumeWidth r0 = 0"
    using started_renderer by blast
  obtain lg1 r1 where v:
    "LoadVolumeData d3d_all_ok (Some (replicate 24 0)) 2 3 4 (Num 1) started = (True, lg1, Some r1)"
    "volume_loaded = (lg1, Some r1)" "m_device r1"
    using volume_loaded_renderer by blast
  let ?none = "LoadLabelData d3d_all_ok (Some (replicate 210 0)) 5 6 7 (lg0, Some r0)"
  let ?zero = "LoadLabelData d3d_all_ok (Some (replicate 210 0)) 0 6 7 (lg1, Some r1)"
  let ?some = "LoadLabelData d3d_all_ok (Some (replicate 210 0)) 5 6 7 (lg1, Some r1)"
  have n: "?none = (fst ?none, fst (snd ?none), snd (snd ?none))"
    and z: "?zero = (fst ?zero, fst (snd ?zero), snd (snd ?zero))"
    and l: "?some = (fst ?some, fst (snd ?some), snd (snd ?some))"
    by simp_all
  have valid: "Some (replicate 24 (0 :: 8 word)) \<noteq> None" "(0 :: int) < 2" "(0 :: int) < 3"
      "(0 :: int) < 4"
    by simp_all
  have dims: "m_volumeWidth r1 = 2 \<and> m_volumeHeight r1 = 3 \<and> m_volumeDepth r1 = 4"
    using LoadVolumeData_validated [OF v(1) valid] by simp
  have ok: "fst ?some"
    using v(3) dims
    by (simp add: LoadLabelData_def VolumeRenderer_LoadLabelData_def
        VolumeRenderer_CreateLabelTexture_def d3d_all_ok_def Let_def)
  from load_label_uses_stored_dimensions [OF n] s(2)
  have "fst ?none = False" by auto
  moreover from load_label_uses_stored_dimensions [OF z]
  have "fst ?zero = False" by auto
  moreover from load_label_uses_stored_dimensions [OF l] ok v(1) valid
  have "\<exists>lg r tex. snd ?some = (lg, Some r) \<and>
      m_labelTexture r = Some tex \<and> Width tex = 2 \<and> Height tex = 3 \<and> Depth tex = 4"
    by (metis prod.collapse)
  ultimately show ?thesis
    using ok by (simp add: s(1) v(2))
qed

subsection \<open>Entry points and the renderer's lifetime\<close>

lemma entry_points_without_renderer:
  "Render env (lg, None) =
     Inr (Log ''Render called but renderer is not initialized'' LOG_ERROR lg, None)"
  "LoadVolumeData env data width height depth voxelSize (lg, None) =
     (False, Log ''LoadVolumeData called but renderer is not initialized'' LOG_ERROR lg, None)"
  "LoadLabelData env data width height depth (lg, None) =
     (False, Log ''LoadLabelData called but renderer is not initialized'' LOG_ERROR lg, None)"
  "UpdateMaterials env colors count (lg, None) =
     Inr (Log ''UpdateMaterials called but renderer is not initialized'' LOG_ERROR lg, None)"
  "Resize env width height (lg, None) =
     (Log ''Resize called but renderer is not initialized'' LOG_ERROR lg, None)"
  "RotateCamera deltaX deltaY (lg, None) =
     (Log ''RotateCamera called but renderer is not initialized'' LOG_ERROR lg, None)"
  "ZoomCamera delta (lg, None) =
     (Log ''ZoomCamera called but renderer is not initialized'' LOG_ERROR lg, None)"
  "ResetCamera (lg, None) =
     (Log ''ResetCamera called but renderer is not initialized'' LOG_ERROR lg, None)"
  "SetRenderingParams opacity brightness contrast renderMode showLabels (lg, None) =
     (Log ''SetRenderingParams called but renderer is not initialized'' LOG_ERROR lg, None)"
  by (simp_all add: Render_def catch_all_def LoadVolumeData_def LoadLabelData_def
      UpdateMaterials_def Resize_def RotateCamera_def ZoomCamera_def ResetCamera_def
      SetRenderingParams_def)

text \<open>
  Claim C4 says that every data-dependent entry point called before a successful
  \<open>Initialize\<close> reports an error, has no effect and does not crash. The entry points test
  \<open>g_renderer\<close>, which \<open>Initialize\<close> sets before it calls the renderer's own \<open>Initialize\<close>
  and leaves set when that fails. After an \<open>Initialize\<close> that returned failure because the
  device could not be created, \<open>UpdateMaterials\<close> with one colour writes \<open>m_materials[0]\<close>
  of a vector that is still empty, and \<open>RotateCamera(1, 0)\<close> moves \<open>theta\<close> from 0 to 1 and
  logs an information message only.
\<close>

theorem entry_points_after_failed_initialize:
  "fst (Initialize no_device True 800 600 (listening, None)) = False \<and>
   UpdateMaterials d3d_all_ok (Some [0xFFFF0000]) 1 failed_start = Inl write_past_end \<and>
   map_option m_cameraTheta (snd failed_start) = Some (Num 0) \<and>
   map_option m_cameraTheta (snd (RotateCamera (Num 1) (Num 0) failed_start)) = Some (Num 1) \<and>
   delivered (fst (RotateCamera (Num 1) (Num 0) failed_start)) =
     delivered (fst failed_start) @
       [(''Camera rotated to theta: %f, phi: %f, radius: %f'', LOG_INFO)]"
proof -
  obtain lg r where s: "failed_start = (lg, Some r)" "g_logCallback lg" "m_materials r = []"
      "m_cameraTheta r = Num 0" "fst (Initialize no_device True 800 600 (listening, None)) = False"
    using failed_start_renderer by blast
  have "material_loop [0xFFFF0000] 1 0 [] = Inl write_past_end"
    by (subst material_loop.simps) simp
  then have crash: "UpdateMaterials d3d_all_ok (Some [0xFFFF0000]) 1 failed_start = Inl write_past_end"
    by (simp add: s UpdateMaterials_def VolumeRenderer_UpdateMaterials_def Let_def)
  have before: "map_option m_cameraTheta (snd failed_start) = Some (Num 0)"
    by (simp add: s)
  have after: "map_option m_cameraTheta (snd (RotateCamera (Num 1) (Num 0) failed_start)) = Some (Num 1)"
    by (simp add: s RotateCamera_def VolumeRenderer_RotateCamera_def Let_def)
  have quiet: "delivered (fst (RotateCamera (Num 1) (Num 0) failed_start)) =
     delivered (fst failed_start) @
       [(''Camera rotated to theta: %f, phi: %f, radius: %f'', LOG_INFO)]"
    by (simp add: s RotateCamera_def VolumeRenderer_RotateCamera_def Let_def delivered_Log)
  show ?thesis
    by (intro conjI s(5) crash before after quiet)
qed

subsection \<open>Rendering\<close>

lemma catch_all_returns: "\<exists>s. catch_all prefix unknown outcome = Inr s"
  by (auto simp add: catch_all_def split: sum.splits exn.splits)

lemma catch_all_Inr: "catch_all prefix unknown (Inr s) = Inr s"
  by (simp add: catch_all_def)

lemma catch_all_Inl:
  "catch_all prefix unknown (Inl (e, lg, x)) =
     Inr (Log (case e of std_exception what \<Rightarrow> prefix @ what | unknown_exception \<Rightarrow> unknown)
            LOG_ERROR lg, x)"
  by (cases e) (simp_all add: catch_all_def)

lemma VolumeRenderer_Render_returns: "\<exists>lg' r'. VolumeRenderer_Render env s = Inr (lg', r')"
  using catch_all_returns [of "''Exception in Render: ''" "''Unknown exception in Render''"
      "VolumeRenderer_Render_try env s"]
  by (auto simp add: VolumeRenderer_Render_def)

lemma ctx_call_quiet:
  "raises env name = None \<Longrightarrow> ctx_call env name (lg, r) = Inr (lg, r\<lparr>issued := issued r @ [name]\<rparr>)"
  by (simp add: ctx_call_def)

lemma UpdateConstantBuffers_quiet:
  assumes "\<forall>name. raises env name = None"
  shows "\<exists>lg' r'. VolumeRenderer_UpdateConstantBuffers env (lg, r) = Inr (lg', r') \<and>
           m_volumeSRV r' = m_volumeSRV r \<and> m_labelSRV r' = m_labelSRV r \<and>
           m_volumeSampler r' = m_volumeSampler r"
  using assms by (simp add: VolumeRenderer_UpdateConstantBuffers_def ctx_call_quiet)

lemma Render_try_present_fails:
  assumes "m_context r" "m_device r" "m_swapChain r" "\<forall>name. raises env name = None"
    "\<not> hr_Present env"
  shows "\<exists>lg1 r1. VolumeRenderer_Render_try env (lg, r) =
           Inr (Log ''SwapChain Present failed, HRESULT: 0x%08X'' LOG_ERROR lg1, r1)"
proof -
  let ?r = "r\<lparr>issued := issued r @ [''ClearRenderTargetView'', ''ClearDepthStencilView'',
     ''OMSetRenderTargets'', ''IASetVertexBuffers'', ''IASetIndexBuffer'',
     ''IASetPrimitiveTopology'', ''IASetInputLayout'', ''VSSetShader'']\<rparr>"
  obtain lg' r' where u: "VolumeRenderer_UpdateConstantBuffers env (lg, ?r) = Inr (lg', r')"
    using UpdateConstantBuffers_quiet [OF assms(4)] by blast
  show ?thesis
    using assms u
    by (auto simp add: VolumeRenderer_Render_try_def ctx_call_quiet)
qed

text \<open>
  Claim C5: \<open>Render\<close> returns normally in every state and whatever the calls of the render
  sequence do; when a call of the sequence raises an exception, \<open>Render\<close> returns with the
  renderer as it was when the exception was raised and one more \<open>Log\<close> call of severity
  \<open>LOG_ERROR\<close> naming the exception; and when no call raises and \<open>Present\<close> returns a
  failure code, \<open>Render\<close> returns with a last \<open>Log\<close> call of severity \<open>LOG_ERROR\<close> that
  reports the failed \<open>Present\<close>.
\<close>

theorem render_never_propagates:
  "(\<exists>g'. Render env g = Inr g') \<and>
   (VolumeRenderer_Render_try env (lg, r) = Inl (e, lg1, r1) \<longrightarrow>
      Render env (lg, Some r) =
        Inr (Log (case e of std_exception what \<Rightarrow> ''Exception in Render: '' @ what
                  | unknown_exception \<Rightarrow> ''Unknown exception in Render'') LOG_ERROR lg1,
             Some r1)) \<and>
   (m_context r \<and> m_device r \<and> m_swapChain r \<and> (\<forall>name. raises env name = None) \<and>
      \<not> hr_Present env \<longrightarrow>
      (\<exists>lg2 r2. Render env (lg, Some r) =
         Inr (Log ''SwapChain Present failed, HRESULT: 0x%08X'' LOG_ERROR lg2, Some r2)))"
proof (intro conjI impI)
  show "\<exists>g'. Render env g = Inr g'"
    using catch_all_returns by (cases g) (simp add: Render_def)
next
  assume "VolumeRenderer_Render_try env (lg, r) = Inl (e, lg1, r1)"
  then show "Render env (lg, Some r) =
        Inr (Log (case e of std_exception what \<Rightarrow> ''Exception in Render: '' @ what
                  | unknown_exception \<Rightarrow> ''Unknown exception in Render'') LOG_ERROR lg1,
             Some r1)"
    by (simp add: Render_def VolumeRenderer_Render_def catch_all_Inl catch_all_Inr)
next
  assume "m_context r \<and> m_device r \<and> m_swapChain r \<and> (\<forall>name. raises env name = None) \<and>
      \<not> hr_Present env"
  then obtain lg2 r2 where "VolumeRenderer_Render_try env (lg, r) =
           Inr (Log ''SwapChain Present failed, HRESULT: 0x%08X'' LOG_ERROR lg2, r2)"
    using Render_try_present_fails by blast
  then show "\<exists>lg2 r2. Render env (lg, Some r) =
         Inr (Log ''SwapChain Present failed, HRESULT: 0x%08X'' LOG_ERROR lg2, Some r2)"
    by (auto simp add: Render_def VolumeRenderer_Render_def catch_all_Inr)
qed

lemma last_delivered_Log:
  "g_logCallback lg \<Longrightarrow> last (delivered (Log message severity lg)) = (message, severity)"
  by (simp add: delivered_Log)

text \<open>After a successful \<open>Initialize\<close>: a frame in which \<^verbatim>\<open>DrawIndexed\<close> throws ends with
  the exception in the log, and a frame whose \<^verbatim>\<open>Present\<close> fails ends with that report.\<close>

theorem render_never_propagates_witness:
  "(\<exists>lg r. Render draw_raises started = Inr (lg, Some r) \<and>
      last (delivered lg) = (''Exception in Render: device removed'', LOG_ERROR)) \<and>
   (\<exists>lg r. Render no_present started =
      Inr (Log ''SwapChain Present failed, HRESULT: 0x%08X'' LOG_ERROR lg, Some r))"
proof -
  obtain lg r where s: "started = (lg, Some r)" "g_logCallback lg"
      "m_device r" "m_context r" "m_swapChain r" "m_volumeSRV r = None" "m_labelSRV r = None"
      "m_constantBuffer r" "m_materialSRV r" "m_volumeSampler r"
    using started_renderer by blast
  have "\<exists>lg1 r1. VolumeRenderer_Render_try draw_raises (lg, r) =
          Inl (std_exception ''device removed'', lg1, r1) \<and> g_logCallback lg1"
    by (simp add: s VolumeRenderer_Render_try_def VolumeRenderer_UpdateConstantBuffers_def
        ctx_call_def draw_raises_def d3d_all_ok_def)
  then obtain lg1 r1 where t: "VolumeRenderer_Render_try draw_raises (lg, r) =
          Inl (std_exception ''device removed'', lg1, r1)" "g_logCallback lg1"
    by blast
  have quiet: "\<forall>name. raises no_present name = None" and failing: "\<not> hr_Present no_present"
    by (simp_all add: no_present_def d3d_all_ok_def)
  from render_never_propagates [of draw_raises "(lg, Some r)" lg r
      "std_exception ''device removed''" lg1 r1] t
  have "Render draw_raises (lg, Some r) =
      Inr (Log ''Exception in Render: device removed'' LOG_ERROR lg1, Some r1)"
    by simp
  moreover from render_never_propagates [of no_present "(lg, Some r)" lg r] s quiet failing
  have "\<exists>lg2 r2. Render no_present (lg, Some r) =
      Inr (Log ''SwapChain Present failed, HRESULT: 0x%08X'' LOG_ERROR lg2, Some r2)"
    by blast
  ultimately show ?thesis
    using t(2) by (auto simp add: s(1) last_delivered_Log)
qed

end
